theory Spec2Isabelle
  imports Main "HOL-Library.AList" "HOL-Library.Sublist" "HOL-Library.Multiset"
begin

section \<open>Values, effects and the program state\<close>

text \<open>
  The bridge keeps three module-level tables: \<open>wsClients\<close> and \<open>wsClientMap\<close> in
  waWSserver.js and \<open>waClients\<close> in waIntegration.js. Each is a plain JavaScript object.
  Its own properties are an association list or a map here: \<open>AList.update\<close> overwrites a
  key in place and appends a new key at the end, which is the insertion order
  \<open>Object.keys\<close> reports. A property read also finds what the object inherits; the tables
  keyed by a user identifier, which comes unchecked from the frame, account for that below.
\<close>

text \<open>
  A connection identifier is what \<open>generateWsId\<close> returns, \<open>ws_<Date.now()>_<random>\<close>:
  the time in milliseconds and a number below 1000. No such key is inherited.
\<close>

datatype wsid = WsId nat nat

type_synonym userId = string

datatype jsvalue =
    JUndefined
  | JNull
  | JBool bool
  | JNum int
  | JStr string
  | JArr "jsvalue list"
  | JObj "(string \<times> jsvalue) list"

type_synonym jsobject = "(string \<times> jsvalue) list"

definition field :: "jsobject \<Rightarrow> string \<Rightarrow> jsvalue" where
  "field obj k = (case map_of obj k of None \<Rightarrow> JUndefined | Some v \<Rightarrow> v)"

text \<open>
  \<open>JSON.stringify\<close>, as the value the text denotes: a property whose value is
  \<open>undefined\<close> is left out, an \<open>undefined\<close> element of an array becomes \<open>null\<close>.
\<close>

primrec stringify :: "jsvalue \<Rightarrow> jsvalue" where
  "stringify JUndefined = JUndefined"
| "stringify JNull = JNull"
| "stringify (JBool b) = JBool b"
| "stringify (JNum n) = JNum n"
| "stringify (JStr x) = JStr x"
| "stringify (JArr vs) =
     JArr (map (\<lambda>v. if v = JUndefined then JNull else v) (map stringify vs))"
| "stringify (JObj kvs) =
     JObj (filter (\<lambda>p. snd p \<noteq> JUndefined) (map (map_prod id stringify) kvs))"

definition JSON_stringify :: "jsobject \<Rightarrow> jsobject" where
  "JSON_stringify obj = filter (\<lambda>p. snd p \<noteq> JUndefined) (map (map_prod id stringify) obj)"

text \<open>A string-valued property that may be missing; the empty string is falsy.\<close>

definition truthy :: "string option \<Rightarrow> bool" where
  "truthy x = (case x of None \<Rightarrow> False | Some s \<Rightarrow> s \<noteq> [])"

definition or_null :: "string option \<Rightarrow> string option" where
  "or_null x = (if truthy x then x else None)"

definition str_or_null :: "string option \<Rightarrow> jsvalue" where
  "str_or_null x = (case or_null x of None \<Rightarrow> JNull | Some s \<Rightarrow> JStr s)"

definition str_or_undefined :: "string option \<Rightarrow> jsvalue" where
  "str_or_undefined x = (case x of None \<Rightarrow> JUndefined | Some s \<Rightarrow> JStr s)"

text \<open>
  Thrown values; the string is \<open>error.message\<close>. The message of a TypeError or a
  SyntaxError is the engine's: the texts below stand for whatever it says.
\<close>

datatype exn = Error string | TypeError string | SyntaxError string

fun message_of :: "exn \<Rightarrow> string" where
  "message_of (Error m) = m"
| "message_of (TypeError m) = m"
| "message_of (SyntaxError m) = m"

subsection \<open>The automation backend as the code sees it\<close>

record wa_message =
  id_serialized :: string
  timestamp :: int
  author :: "string option"
  msg_from :: string
  body :: string
  msg_type :: string
  quotedMsgId :: "string option"
  isGroupMsg :: "bool option"

record wa_chat =
  fetchMessages :: "nat \<Rightarrow> exn + wa_message list"

record group_chat =
  chat_id_serialized :: "string option"
  chat_id_server :: string
  chat_name :: "string option"
  chat_archived :: "bool option"
  chat_timestamp :: "int option"

record pup_page =
  waitForSelector :: "exn option"
  close :: "exn option"

text \<open>
  One backend client instance: the outcome each backend call has when it is made
  (\<open>Inl\<close> or \<open>Some\<close> an exception: the call throws), the flag
  \<open>messageListenerAttached\<close> the code stores on the instance, and \<open>property_names\<close>,
  the names under which the instance or one of its prototypes below \<open>Object.prototype\<close>
  holds a truthy value (\<open>getState\<close>, \<open>on\<close>, \<open>options\<close> and so on).
\<close>

record wa_client =
  getState :: "exn + string"
  initialize :: "exn option"
  destroy :: "exn option"
  pupPage :: "pup_page option"
  getChatById :: "string option \<Rightarrow> exn + wa_chat option"
  getGroupChats :: "exn + group_chat list"
  sendMessage :: "string option \<Rightarrow> string option \<Rightarrow> exn option"
  messageListenerAttached :: bool
  property_names :: "string list"

subsection \<open>Connections, subscriptions and the global tables\<close>

datatype readyState = CONNECTING | OPEN | CLOSING | CLOSED

record subscription =
  sendMessages :: bool

record client_map =
  userIds :: "(userId \<times> subscription) list"

text \<open>
  \<open>waClients\<close> holds the own properties of the session table, with one exception: an
  assignment to the key \<open>__proto__\<close> does not create a property but makes the assigned
  instance the prototype of the table, and a read of that key returns it. The entry at
  \<open>__proto__\<close> is that prototype (absent: \<open>Object.prototype\<close>).

  \<open>inherited_sendMessages\<close> holds the \<open>sendMessages\<close> properties the router has written
  onto members of \<open>Object.prototype\<close>, by the name of the member; the name \<open>__proto__\<close>
  is \<open>Object.prototype\<close> itself, whose properties every object inherits.
\<close>

record globals =
  wsClients :: "(wsid \<times> readyState) list"
  wsClientMap :: "(wsid \<times> client_map) list"
  waClients :: "userId \<Rightarrow> wa_client option"
  inherited_sendMessages :: "(string \<times> bool) list"

text \<open>The own property names of \<open>Object.prototype\<close>.\<close>

definition prototype_keys :: "string list" where
  "prototype_keys =
     [''constructor'', ''__defineGetter__'', ''__defineSetter__'', ''hasOwnProperty'',
      ''__lookupGetter__'', ''__lookupSetter__'', ''isPrototypeOf'', ''propertyIsEnumerable'',
      ''toString'', ''valueOf'', ''__proto__'', ''toLocaleString'']"

text \<open>The record an inbound frame decodes to, also the \<open>requestData\<close> of waLogic.js.\<close>

record request_data =
  user_id :: "string option"
  event :: "string option"
  recipient :: "string option"
  message :: "string option"
  group_id :: "string option"
  startTime :: "string option"
  endTime :: "string option"

datatype frame = Unparseable string | ParsedNull | Parsed request_data

subsection \<open>Effects\<close>

datatype level = INFO | DEBUG | ERROR

text \<open>A template literal, piece by piece.\<close>

datatype piece = S string | N int | V jsvalue | R request_data | W wsid

datatype backend_call =
    GetState
  | Initialize
  | Destroy
  | PageClose
  | WaitForSelector
  | GetGroupChats
  | GetChatById "string option"
  | FetchMessages nat
  | SendMessage "string option" "string option"
  | NewClient
  | OnMessage

text \<open>
  \<open>Send\<close> is a frame written to a connection, \<open>Dispatch\<close> the start of a
  \<open>handleClientRequest\<close> call that nobody awaits, \<open>SetTimeout\<close> the registration of the
  delayed re-initialisation.
\<close>

datatype effect =
    Log level string string "piece list"
  | Send wsid jsobject
  | Dispatch userId request_data
  | Backend userId backend_call
  | SetTimeout nat userId

text \<open>
  A routine runs on the global tables, leaves a trace of effects and either returns or
  throws. What happened before a throw stays in the state and in the trace.
\<close>

type_synonym 'a prog = "globals \<Rightarrow> globals \<times> effect list \<times> (exn + 'a)"

definition ret :: "'a \<Rightarrow> 'a prog" where
  "ret a s = (s, [], Inr a)"

definition throw :: "exn \<Rightarrow> 'a prog" where
  "throw e s = (s, [], Inl e)"

definition seq :: "'a prog \<Rightarrow> ('a \<Rightarrow> 'b prog) \<Rightarrow> 'b prog" where
  "seq f g s =
     (case f s of
        (s1, es1, Inl e) \<Rightarrow> (s1, es1, Inl e)
      | (s1, es1, Inr a) \<Rightarrow> (case g a s1 of (s2, es2, r) \<Rightarrow> (s2, es1 @ es2, r)))"

definition try_catch :: "'a prog \<Rightarrow> (exn \<Rightarrow> 'a prog) \<Rightarrow> 'a prog" where
  "try_catch f h s =
     (case f s of
        (s1, es1, Inl e) \<Rightarrow> (case h e s1 of (s2, es2, r) \<Rightarrow> (s2, es1 @ es2, r))
      | (s1, es1, Inr a) \<Rightarrow> (s1, es1, Inr a))"

definition emit :: "effect \<Rightarrow> unit prog" where
  "emit e s = (s, [e], Inr ())"

definition modify :: "(globals \<Rightarrow> globals) \<Rightarrow> unit prog" where
  "modify f s = (f s, [], Inr ())"

definition logInfo :: "string \<Rightarrow> string \<Rightarrow> piece list \<Rightarrow> unit prog" where
  "logInfo m f t = emit (Log INFO m f t)"

definition logDebug :: "string \<Rightarrow> string \<Rightarrow> piece list \<Rightarrow> unit prog" where
  "logDebug m f t = emit (Log DEBUG m f t)"

definition logError :: "string \<Rightarrow> string \<Rightarrow> piece list \<Rightarrow> unit prog" where
  "logError m f t = emit (Log ERROR m f t)"

section \<open>waWSserver.js: the relay\<close>

subsection \<open>Reading \<open>userIds[userId]\<close>\<close>

text \<open>
  What \<open>wsClientMap[wsid].userIds[userId]\<close> evaluates to: the subscription stored under
  the key, or else what the empty object inherits under it. That is a member of
  \<open>Object.prototype\<close> (a function, or for \<open>__proto__\<close> the prototype itself), or the
  boolean the router has written to \<open>Object.prototype.sendMessages\<close> when the key is
  \<open>sendMessages\<close>, or \<open>undefined\<close>.
\<close>

datatype property = Own subscription | Member string | Primitive bool | Undefined

definition inherited_value :: "globals \<Rightarrow> string \<Rightarrow> property" where
  "inherited_value s k =
     (if k \<in> set prototype_keys then Member k
      else if k = ''sendMessages''
      then (case map_of (inherited_sendMessages s) ''__proto__'' of
              Some b \<Rightarrow> Primitive b
            | None \<Rightarrow> Undefined)
      else Undefined)"

definition userIds_get :: "globals \<Rightarrow> client_map \<Rightarrow> userId \<Rightarrow> property" where
  "userIds_get s cm userId =
     (case map_of (userIds cm) userId of
        Some sub \<Rightarrow> Own sub
      | None \<Rightarrow> inherited_value s userId)"

fun truthy_property :: "property \<Rightarrow> bool" where
  "truthy_property (Own sub) = True"
| "truthy_property (Member k) = True"
| "truthy_property (Primitive b) = b"
| "truthy_property Undefined = False"

text \<open>
  The \<open>sendMessages\<close> property of a member of \<open>Object.prototype\<close>: its own, or the one
  it inherits from \<open>Object.prototype\<close>.
\<close>

definition member_sendMessages :: "globals \<Rightarrow> string \<Rightarrow> bool option" where
  "member_sendMessages s k =
     (case map_of (inherited_sendMessages s) k of
        Some b \<Rightarrow> Some b
      | None \<Rightarrow> if k = ''__proto__'' then None else map_of (inherited_sendMessages s) ''__proto__'')"

text \<open>
  Whether \<open>.sendMessages\<close> of such a value is truthy; reading it off \<open>undefined\<close> is a
  TypeError.
\<close>

fun sendMessages_of :: "globals \<Rightarrow> property \<Rightarrow> exn + bool" where
  "sendMessages_of s (Own sub) = Inr (sendMessages sub)"
| "sendMessages_of s (Member k) = Inr (member_sendMessages s k = Some True)"
| "sendMessages_of s (Primitive b) =
     Inr (map_of (inherited_sendMessages s) ''__proto__'' = Some True)"
| "sendMessages_of s Undefined =
     Inl (TypeError ''Cannot read properties of undefined (reading sendMessages)'')"

subsection \<open>sendMessageToClients\<close>

text \<open>
  \<open>wsClientMap[wsid].userIds && wsClientMap[wsid].userIds[userId]\<close>, asked of a key of
  \<open>wsClientMap\<close>.
\<close>

definition subscribed :: "globals \<Rightarrow> userId \<Rightarrow> wsid \<Rightarrow> bool" where
  "subscribed s userId w =
     (case map_of (wsClientMap s) w of
        None \<Rightarrow> False
      | Some cm \<Rightarrow> truthy_property (userIds_get s cm userId))"

text \<open>\<open>wsClientMap[wsid].userIds[userId].sendMessages\<close>\<close>

definition read_sendMessages :: "globals \<Rightarrow> userId \<Rightarrow> wsid \<Rightarrow> exn + bool" where
  "read_sendMessages s userId w =
     (case map_of (wsClientMap s) w of
        None \<Rightarrow> Inl (TypeError ''Cannot read properties of undefined (reading userIds)'')
      | Some cm \<Rightarrow> sendMessages_of s (userIds_get s cm userId))"

text \<open>\<open>targetClients.filter(wsid => wsClientMap[wsid].userIds[userId].sendMessages)\<close>\<close>

fun filter_sendMessages :: "globals \<Rightarrow> userId \<Rightarrow> wsid list \<Rightarrow> exn + wsid list" where
  "filter_sendMessages s userId [] = Inr []"
| "filter_sendMessages s userId (w # ws) =
     (case read_sendMessages s userId w of
        Inl e \<Rightarrow> Inl e
      | Inr b \<Rightarrow>
          (case filter_sendMessages s userId ws of
             Inl e \<Rightarrow> Inl e
           | Inr r \<Rightarrow> Inr (if b then w # r else r)))"

text \<open>\<open>delete wsClientMap[wsid].userIds[userId]\<close>: only an own property goes.\<close>

definition delete_userId :: "wsid \<Rightarrow> userId \<Rightarrow> unit prog" where
  "delete_userId w userId s =
     (case map_of (wsClientMap s) w of
        None \<Rightarrow> throw (TypeError ''Cannot read properties of undefined (reading userIds)'') s
      | Some cm \<Rightarrow>
          (s\<lparr>wsClientMap :=
               AList.update w (cm\<lparr>userIds := AList.delete userId (userIds cm)\<rparr>) (wsClientMap s)\<rparr>,
           [], Inr ()))"

text \<open>
  The body of the \<open>forEach\<close> over the target connections; the frame is
  \<open>JSON.stringify(message)\<close>.
\<close>

definition send_to :: "userId \<Rightarrow> jsobject \<Rightarrow> wsid \<Rightarrow> unit prog" where
  "send_to userId msg w s =
     (if map_of (wsClients s) w = Some OPEN
      then seq (emit (Send w (JSON_stringify msg)))
             (\<lambda>_. logInfo ''waWSserver'' ''sendMessageToClients''
                [S ''Sent message to wsid '', W w, S '' for userId '', S userId, S '': '',
                 V (JObj (JSON_stringify msg)), S ''...'']) s
      else seq (logError ''waWSserver'' ''sendMessageToClients''
                [S ''Client wsid '', W w, S '' for userId '', S userId,
                 S '' is not connected. Removing from list.''])
             (\<lambda>_. delete_userId w userId) s)"

fun forEach_send :: "userId \<Rightarrow> jsobject \<Rightarrow> wsid list \<Rightarrow> unit prog" where
  "forEach_send userId msg [] = ret ()"
| "forEach_send userId msg (w # ws) =
     seq (send_to userId msg w) (\<lambda>_. forEach_send userId msg ws)"

text \<open>
  \<open>specificClients || Object.keys(wsClientMap).filter(...)\<close>: an array is truthy even
  when empty, so only the absent argument falls through to the registry.
\<close>

definition targetClients :: "globals \<Rightarrow> userId \<Rightarrow> wsid list option \<Rightarrow> wsid list" where
  "targetClients s userId specificClients =
     (case specificClients of
        Some cs \<Rightarrow> cs
      | None \<Rightarrow> filter (subscribed s userId) (map fst (wsClientMap s)))"

definition sendMessageToClients :: "userId \<Rightarrow> jsobject \<Rightarrow> wsid list option \<Rightarrow> unit prog" where
  "sendMessageToClients userId msg specificClients s =
     seq (logInfo ''waWSserver'' ''sendMessageToClients''
            [S ''Sending message to '', S userId, S '', message type: '', V (field msg ''event'')])
       (\<lambda>_.
         if field msg ''event'' = JStr ''message''
         then (case filter_sendMessages s userId (targetClients s userId specificClients) of
                 Inl e \<Rightarrow> throw e
               | Inr tc \<Rightarrow>
                   if tc = []
                   then logInfo ''waWSserver'' ''sendMessageToClients''
                          [S ''No active clients found for userId '', S userId, S '' messges'']
                   else forEach_send userId msg tc)
         else if targetClients s userId specificClients = []
         then logError ''waWSserver'' ''sendMessageToClients''
                [S ''No active clients found for userId '', S userId]
         else forEach_send userId msg (targetClients s userId specificClients)) s"

section \<open>waIntegration.js\<close>

subsection \<open>Reading \<open>waClients[userId]\<close>\<close>

text \<open>
  What \<open>waClients[userId]\<close> evaluates to: a client instance, another truthy value (an
  inherited member: of \<open>Object.prototype\<close>, of the instance that has become the table's
  prototype, or the boolean written to \<open>Object.prototype.sendMessages\<close>), or a falsy
  value. A value of the second kind has no method \<open>getState\<close>, \<open>initialize\<close> or
  \<open>destroy\<close>: calling one is a TypeError.
\<close>

datatype client_ref = Client wa_client | NotAClient | Falsy

text \<open>
  The property names under which an instance holds a truthy value, with the two this
  program sets on it (\<open>enableReceivingMessages\<close>).
\<close>

definition truthy_names :: "wa_client \<Rightarrow> string list" where
  "truthy_names c =
     property_names c @
     (if messageListenerAttached c then [''messageListenerAttached'', ''messageListener'']
      else [])"

definition waClients_get :: "globals \<Rightarrow> userId \<Rightarrow> client_ref" where
  "waClients_get s userId =
     (if userId = ''__proto__''
      then (case waClients s ''__proto__'' of Some c \<Rightarrow> Client c | None \<Rightarrow> NotAClient)
      else
        (case waClients s userId of
           Some c \<Rightarrow> Client c
         | None \<Rightarrow>
             if userId \<in> set prototype_keys then NotAClient
             else if (case waClients s ''__proto__'' of
                        Some p \<Rightarrow> userId \<in> set (truthy_names p)
                      | None \<Rightarrow> False)
             then NotAClient
             else if userId = ''sendMessages'' \<and>
                     map_of (inherited_sendMessages s) ''__proto__'' = Some True
             then NotAClient
             else Falsy))"

text \<open>\<open>delete waClients[userId]\<close>: the key \<open>__proto__\<close> is no own property, nothing goes.\<close>

definition delete_waClient :: "userId \<Rightarrow> unit prog" where
  "delete_waClient userId =
     modify (\<lambda>g. if userId = ''__proto__'' then g
                 else g\<lparr>waClients := (waClients g)(userId := None)\<rparr>)"

text \<open>\<open>waClients[userId] = client\<close>\<close>

definition assign_waClient :: "userId \<Rightarrow> wa_client \<Rightarrow> unit prog" where
  "assign_waClient userId client =
     modify (\<lambda>g. g\<lparr>waClients := (waClients g)(userId \<mapsto> client)\<rparr>)"

subsection \<open>getConnectedClient and handleWhatsAppEvent\<close>

text \<open>
  Every \<open>await\<close> is a point where other handlers may run. A routine named like the
  source function runs to its end in one step, each backend call answering as the
  instance's record says; a routine named \<open>_start\<close> is the part that runs inside the
  caller, up to the first \<open>await\<close> on a backend call or on the result of an async
  function, and \<open>_resumed\<close> is what follows when the awaited call has settled.
\<close>

definition getConnectedClient :: "userId \<Rightarrow> wa_client option prog" where
  "getConnectedClient userId s =
     (case waClients_get s userId of
        Falsy \<Rightarrow>
          seq (logError ''waIntegration'' ''getConnectedClient''
                 [S ''No client found for userId '', S userId])
            (\<lambda>_. ret None) s
      | NotAClient \<Rightarrow>
          seq (logError ''waIntegration'' ''getConnectedClient''
                 [S ''Error checking state for userId '', S userId, S '': '',
                  S ''client.getState is not a function''])
            (\<lambda>_. ret None) s
      | Client client \<Rightarrow>
          seq (emit (Backend userId GetState))
            (\<lambda>_. case getState client of
                    Inl error \<Rightarrow>
                      seq (logError ''waIntegration'' ''getConnectedClient''
                             [S ''Error checking state for userId '', S userId, S '': '',
                              S (message_of error)])
                        (\<lambda>_. ret None)
                  | Inr state \<Rightarrow>
                      if state \<noteq> ''CONNECTED''
                      then seq (logError ''waIntegration'' ''getConnectedClient''
                                  [S ''Client state for userId '', S userId, S '' is '', S state])
                             (\<lambda>_. ret None)
                      else ret (Some client)) s)"

text \<open>
  The part of \<open>getConnectedClient\<close> that runs inside its caller: it has returned
  \<open>null\<close>, or it has called \<open>getState\<close> and waits for the answer.
\<close>

definition getConnectedClient_start :: "userId \<Rightarrow> unit prog" where
  "getConnectedClient_start userId s =
     (case waClients_get s userId of
        Falsy \<Rightarrow>
          logError ''waIntegration'' ''getConnectedClient''
            [S ''No client found for userId '', S userId] s
      | NotAClient \<Rightarrow>
          logError ''waIntegration'' ''getConnectedClient''
            [S ''Error checking state for userId '', S userId, S '': '',
             S ''client.getState is not a function''] s
      | Client client \<Rightarrow> emit (Backend userId GetState) s)"

text \<open>The \<open>data\<close> argument of \<open>handleWhatsAppEvent\<close>: nothing, a string or a message.\<close>

datatype event_data = Null | Str string | Msg wa_message

definition bool_or_undefined :: "bool option \<Rightarrow> jsvalue" where
  "bool_or_undefined x = (case x of None \<Rightarrow> JUndefined | Some b \<Rightarrow> JBool b)"

text \<open>The backend's message object, where it is relayed as it is.\<close>

definition message_object :: "wa_message \<Rightarrow> jsobject" where
  "message_object m =
     [(''id'', JObj [(''_serialized'', JStr (id_serialized m))]),
      (''timestamp'', JNum (timestamp m)),
      (''author'', str_or_undefined (author m)),
      (''from'', JStr (msg_from m)),
      (''body'', JStr (body m)),
      (''type'', JStr (msg_type m)),
      (''quotedMsgId'', str_or_undefined (quotedMsgId m)),
      (''isGroupMsg'', bool_or_undefined (isGroupMsg m))]"

fun data_value :: "event_data \<Rightarrow> jsvalue" where
  "data_value Null = JNull"
| "data_value (Str x) = JStr x"
| "data_value (Msg m) = JObj (message_object m)"

text \<open>The object literal \<open>parsedMessage\<close> of the \<open>'message'\<close> case.\<close>

definition parsedMessage :: "wa_message \<Rightarrow> jsobject" where
  "parsedMessage m =
     [(''id'', JStr (id_serialized m)),
      (''isGroups'', bool_or_undefined (isGroupMsg m)),
      (''timestamp'', JNum (timestamp m * 1000)),
      (''sender'', str_or_undefined (author m)),
      (''from'', JStr (msg_from m)),
      (''body'', JStr (body m)),
      (''type'', JStr (msg_type m)),
      (''reply'', str_or_null (quotedMsgId m))]"

definition handleWhatsAppEvent :: "userId \<Rightarrow> string \<Rightarrow> event_data \<Rightarrow> unit prog" where
  "handleWhatsAppEvent userId ev d =
     seq (logDebug ''waIntegration'' ''handleWhatsAppEvent''
            [S ''Event received: '', S ev, S '' for userId '', S userId])
       (\<lambda>_.
         if ev = ''qr'' then
           sendMessageToClients userId
             [(''event'', JStr ''qr''), (''userid'', JStr userId), (''qr_code'', data_value d)] None
         else if ev = ''authenticated'' then
           sendMessageToClients userId
             [(''event'', JStr ''authenticated''), (''userid'', JStr userId)] None
         else if ev = ''ready'' then
           sendMessageToClients userId
             [(''event'', JStr ''ready''), (''userid'', JStr userId)] None
         else if ev = ''disconnected'' then
           sendMessageToClients userId
             [(''event'', JStr ''disconnected''), (''userid'', JStr userId)] None
         else if ev = ''error'' then
           sendMessageToClients userId
             [(''event'', JStr ''error''), (''userid'', JStr userId), (''message'', data_value d)]
             None
         else if ev = ''message'' then
           (case d of
              Msg m \<Rightarrow>
                sendMessageToClients userId
                  [(''event'', JStr ''message''), (''userid'', JStr userId),
                   (''message'', JObj (parsedMessage m))] None
            | _ \<Rightarrow> throw (TypeError ''Cannot read properties of undefined (reading _serialized)''))
         else
           sendMessageToClients userId
             [(''event'', JStr ev), (''userid'', JStr userId), (''data'', data_value d)] None)"

subsection \<open>terminateWhatsAppClient\<close>

text \<open>
  The routine is called without \<open>await\<close>. Inside its caller it runs until it has called
  \<open>destroy\<close>; \<open>Some client\<close> is the instance whose \<open>destroy\<close> is then pending.
\<close>

definition terminateWhatsAppClient_start :: "userId \<Rightarrow> wa_client option prog" where
  "terminateWhatsAppClient_start userId s =
     (case waClients_get s userId of
        Falsy \<Rightarrow>
          seq (logDebug ''waIntegration'' ''terminateWhatsAppClient''
                 [S ''No active client to terminate for userId '', S userId])
            (\<lambda>_. ret None) s
      | NotAClient \<Rightarrow>
          seq (logError ''waIntegration'' ''terminateWhatsAppClient''
                 [S ''Error terminating client for userId '', S userId, S '': '',
                  S ''client.destroy is not a function''])
            (\<lambda>_. ret None) s
      | Client client \<Rightarrow>
          seq (emit (Backend userId Destroy)) (\<lambda>_. ret (Some client)) s)"

text \<open>
  What follows when the pending \<open>destroy\<close> of \<open>client\<close> has settled: the rest of the
  \<open>try\<close> block when it returned, the \<open>catch\<close> block when it threw.
\<close>

definition terminateWhatsAppClient_resumed :: "userId \<Rightarrow> wa_client \<Rightarrow> unit prog" where
  "terminateWhatsAppClient_resumed userId client =
     try_catch
       (case destroy client of
          Some e \<Rightarrow> throw e
        | None \<Rightarrow>
            seq (delete_waClient userId)
              (\<lambda>_. seq (case pupPage client of
                          None \<Rightarrow> ret ()
                        | Some page \<Rightarrow>
                            seq (emit (Backend userId PageClose))
                              (\<lambda>_. case close page of
                                      Some e \<Rightarrow> throw e
                                    | None \<Rightarrow> ret ()))
              (\<lambda>_. logDebug ''waIntegration'' ''terminateWhatsAppClient''
                      [S ''Successfully terminated WhatsApp client for userId '', S userId])))
       (\<lambda>error. logError ''waIntegration'' ''terminateWhatsAppClient''
                   [S ''Error terminating client for userId '', S userId, S '': '',
                    S (message_of error)])"

definition terminateWhatsAppClient :: "userId \<Rightarrow> unit prog" where
  "terminateWhatsAppClient userId =
     seq (terminateWhatsAppClient_start userId)
       (\<lambda>pending. case pending of
          None \<Rightarrow> ret ()
        | Some client \<Rightarrow> terminateWhatsAppClient_resumed userId client)"

subsection \<open>initializeWhatsAppClient\<close>

text \<open>
  What the platform supplies: \<open>new Date(s).getTime()\<close> for a string, and the instance
  \<open>new Client(...)\<close> creates for a user.
\<close>

datatype jsnum = NaN | Number int

record platform =
  Date_getTime :: "string \<Rightarrow> jsnum"
  new_Client :: "userId \<Rightarrow> wa_client"

text \<open>
  \<open>setupClientListeners\<close> registers six listeners on the instance (below) and declares
  the two variables they close over. The variables belong to the call, not to
  \<open>waClients\<close>: a listener takes them and returns them updated.
\<close>

record listener_vars =
  firstConnection :: bool
  QRrequest :: nat

definition setupClientListeners :: "userId \<Rightarrow> listener_vars prog" where
  "setupClientListeners userId =
     seq (logDebug ''waIntegration'' ''setupClientListeners''
            [S ''Setting up listeners for userId '', S userId])
       (\<lambda>_. ret \<lparr>firstConnection = False, QRrequest = 0\<rparr>)"

text \<open>
  The first half of \<open>initializeWhatsAppClient\<close>: \<open>Some b\<close> is \<open>return b\<close>, \<open>None\<close>
  falls through to the creation of a new instance.
\<close>

definition reuse_existing :: "userId \<Rightarrow> bool option prog" where
  "reuse_existing userId s =
     (case waClients_get s userId of
        Falsy \<Rightarrow> ret None s
      | NotAClient \<Rightarrow>
          seq (logError ''waIntegration'' ''initializeWhatsAppClient''
                 [S ''Error checking state for userId '', S userId, S '': '',
                  S ''existingClient.getState is not a function'',
                  S ''. Reinitializing new client.''])
            (\<lambda>_. seq (delete_waClient userId) (\<lambda>_. ret None)) s
      | Client existingClient \<Rightarrow>
          try_catch
            (seq (emit (Backend userId GetState))
               (\<lambda>_. case getState existingClient of
                       Inl e \<Rightarrow> throw e
                     | Inr state \<Rightarrow>
                         if state = ''CONNECTED''
                         then seq (logDebug ''waIntegration'' ''initializeWhatsAppClient''
                                     [S ''Client for userId '', S userId,
                                      S '' already connected.''])
                                (\<lambda>_. seq (handleWhatsAppEvent userId ''ready'' Null)
                                (\<lambda>_. ret (Some True)))
                         else seq (logDebug ''waIntegration'' ''initializeWhatsAppClient''
                                     [S ''Client for userId '', S userId,
                                      S '' exists but state is '', S state,
                                      S ''. Attempting reconnection.''])
                                (\<lambda>_. seq (emit (Backend userId Initialize))
                                (\<lambda>_. case initialize existingClient of
                                        Some e \<Rightarrow> throw e
                                      | None \<Rightarrow> ret (Some True)))))
            (\<lambda>error.
               seq (logError ''waIntegration'' ''initializeWhatsAppClient''
                      [S ''Error checking state for userId '', S userId, S '': '',
                       S (message_of error), S ''. Reinitializing new client.''])
                 (\<lambda>_. seq (delete_waClient userId) (\<lambda>_. ret None))) s)"

definition initializeWhatsAppClient :: "platform \<Rightarrow> userId \<Rightarrow> bool prog" where
  "initializeWhatsAppClient pf userId =
     seq (reuse_existing userId)
       (\<lambda>early. case early of
          Some b \<Rightarrow> ret b
        | None \<Rightarrow>
            seq (logDebug ''waIntegration'' ''initializeWhatsAppClient''
                   [S ''Creating new client for userId '', S userId])
              (\<lambda>_. seq (emit (Backend userId NewClient))
              (\<lambda>_. seq (assign_waClient userId (new_Client pf userId))
              (\<lambda>_. seq (setupClientListeners userId)
              (\<lambda>_. try_catch
                     (seq (logDebug ''waIntegration'' ''initializeWhatsAppClient''
                             [S ''Calling client.initialize() for userId '', S userId])
                        (\<lambda>_. seq (emit (Backend userId Initialize))
                        (\<lambda>_. case initialize (new_Client pf userId) of
                                Some e \<Rightarrow> throw e
                              | None \<Rightarrow>
                                  seq (logDebug ''waIntegration'' ''initializeWhatsAppClient''
                                         [S ''Client initialized successfully for userId '',
                                          S userId])
                                    (\<lambda>_. seq (emit (Backend userId GetState))
                                    (\<lambda>_. case getState (new_Client pf userId) of
                                            Inl e \<Rightarrow> throw e
                                          | Inr state \<Rightarrow>
                                              seq (logDebug ''waIntegration''
                                                     ''initializeWhatsAppClient''
                                                     [S ''After initialization, state for userId '',
                                                      S userId, S '': '', S state])
                                                (\<lambda>_. ret True))))))
                     (\<lambda>error.
                        seq (logError ''waIntegration'' ''initializeWhatsAppClient''
                               [S ''Initialization failed for userId '', S userId, S '': '',
                                S (message_of error)])
                          (\<lambda>_. seq (delete_waClient userId) (\<lambda>_. ret False))))))))"

text \<open>
  The creation of a new instance as far as it runs without a pause: the instance is
  recorded, its listeners are set up and \<open>initialize\<close> is called.
\<close>

definition create_client_start :: "platform \<Rightarrow> userId \<Rightarrow> unit prog" where
  "create_client_start pf userId =
     seq (logDebug ''waIntegration'' ''initializeWhatsAppClient''
            [S ''Creating new client for userId '', S userId])
       (\<lambda>_. seq (emit (Backend userId NewClient))
       (\<lambda>_. seq (assign_waClient userId (new_Client pf userId))
       (\<lambda>_. seq (setupClientListeners userId)
       (\<lambda>_. seq (logDebug ''waIntegration'' ''initializeWhatsAppClient''
                   [S ''Calling client.initialize() for userId '', S userId])
       (\<lambda>_. emit (Backend userId Initialize))))))"

text \<open>
  The part of \<open>initializeWhatsAppClient\<close> that runs inside its caller: with an instance
  on record it calls \<open>getState\<close> and waits; otherwise it goes on to create one.
\<close>

definition initializeWhatsAppClient_start :: "platform \<Rightarrow> userId \<Rightarrow> unit prog" where
  "initializeWhatsAppClient_start pf userId s =
     (case waClients_get s userId of
        Falsy \<Rightarrow> create_client_start pf userId s
      | NotAClient \<Rightarrow>
          seq (logError ''waIntegration'' ''initializeWhatsAppClient''
                 [S ''Error checking state for userId '', S userId, S '': '',
                  S ''existingClient.getState is not a function'',
                  S ''. Reinitializing new client.''])
            (\<lambda>_. seq (delete_waClient userId) (\<lambda>_. create_client_start pf userId)) s
      | Client existingClient \<Rightarrow> emit (Backend userId GetState) s)"

subsection \<open>The listeners registered by setupClientListeners\<close>

text \<open>
  The listener of the \<open>'qr'\<close> event. The counter is never reset. The termination is not
  awaited: the listener returns when \<open>destroy\<close> has been called.
\<close>

definition on_qr :: "userId \<Rightarrow> string \<Rightarrow> listener_vars \<Rightarrow> listener_vars prog" where
  "on_qr userId qr lv =
     seq (logDebug ''waIntegration'' ''setupClientListeners''
            [S ''QR code received for userId '', S userId, S '', attempt '',
             N (int (QRrequest lv + 1)), S ''/10''])
       (\<lambda>_. seq (handleWhatsAppEvent userId ''qr'' (Str qr))
       (\<lambda>_. if QRrequest lv + 1 \<ge> 10
             then seq (logError ''waIntegration'' ''setupClientListeners''
                         [S ''Too many QR requests (10) for userId '', S userId,
                          S ''. Terminating client.''])
                    (\<lambda>_. seq (terminateWhatsAppClient_start userId)
                    (\<lambda>_. ret \<lparr>firstConnection = True, QRrequest = QRrequest lv + 1\<rparr>))
             else ret \<lparr>firstConnection = True, QRrequest = QRrequest lv + 1\<rparr>))"

definition on_authenticated :: "userId \<Rightarrow> unit prog" where
  "on_authenticated userId =
     seq (logDebug ''waIntegration'' ''setupClientListeners''
            [S ''User '', S userId, S '' authenticated''])
       (\<lambda>_. handleWhatsAppEvent userId ''authenticated'' Null)"

definition on_ready :: "userId \<Rightarrow> unit prog" where
  "on_ready userId =
     seq (logDebug ''waIntegration'' ''setupClientListeners''
            [S ''WhatsApp client for userId '', S userId, S '' is ready''])
       (\<lambda>_. handleWhatsAppEvent userId ''ready'' Null)"

text \<open>
  The listener of the \<open>'message'\<close> event calls
  \<open>require('./waLogic').handleWhatsAppEvent\<close>. waLogic.js exports
  \<open>handleClientRequest\<close>, \<open>getWhatsAppGroups\<close>, \<open>getGroupMessages\<close> and
  \<open>UserSendMessage\<close> only, so the call is a call of \<open>undefined\<close>.
\<close>

definition on_message :: "userId \<Rightarrow> wa_message \<Rightarrow> unit prog" where
  "on_message userId m =
     seq (logDebug ''waIntegration'' ''setupClientListeners''
            [S ''Message received from userId '', S userId, S '': '', S (take 100 (body m))])
       (\<lambda>_. throw (TypeError ''require(...).handleWhatsAppEvent is not a function''))"

definition on_error :: "userId \<Rightarrow> string \<Rightarrow> unit prog" where
  "on_error userId m =
     seq (logError ''waIntegration'' ''setupClientListeners''
            [S ''Error for userId '', S userId, S '': '', S m])
       (\<lambda>_. handleWhatsAppEvent userId ''error'' (Str m))"

subsection \<open>restartWhatsAppClient\<close>

definition restartWhatsAppClient_start :: "userId \<Rightarrow> wa_client option prog" where
  "restartWhatsAppClient_start userId s =
     seq (logDebug ''waIntegration'' ''restartWhatsAppClient''
            [S ''Restarting WhatsApp client for userId '', S userId])
       (\<lambda>_ t. case waClients_get t userId of
          Falsy \<Rightarrow> seq (emit (SetTimeout 5000 userId)) (\<lambda>_. ret None) t
        | NotAClient \<Rightarrow>
            seq (logError ''waIntegration'' ''restartWhatsAppClient''
                   [S ''Error checking client state before restart: '',
                    S ''waClients[userId].getState is not a function''])
              (\<lambda>_. seq (emit (SetTimeout 5000 userId)) (\<lambda>_. ret None)) t
        | Client client \<Rightarrow>
            seq (emit (Backend userId GetState)) (\<lambda>_. ret (Some client)) t) s"

text \<open>What follows when the pending \<open>getState\<close> of \<open>client\<close> has settled.\<close>

definition restartWhatsAppClient_resumed :: "userId \<Rightarrow> wa_client \<Rightarrow> unit prog" where
  "restartWhatsAppClient_resumed userId client =
     seq (try_catch
            (case getState client of
               Inl e \<Rightarrow> throw e
             | Inr state \<Rightarrow>
                 if state = ''LOGGED_OUT'' \<or> state = ''UNPAIRED''
                 then seq (logError ''waIntegration'' ''restartWhatsAppClient''
                             [S ''Client for userId '', S userId,
                              S '' was logged out. Terminating session.''])
                        (\<lambda>_. seq (terminateWhatsAppClient_start userId)
                        (\<lambda>_. seq (sendMessageToClients userId
                                    [(''event'', JStr ''error''), (''userid'', JStr userId),
                                     (''message'',
                                        JStr ''WhatsApp session expired. Please re-login.'')] None)
                        (\<lambda>_. ret True)))
                 else ret False)
            (\<lambda>error.
               seq (logError ''waIntegration'' ''restartWhatsAppClient''
                      [S ''Error checking client state before restart: '', S (message_of error)])
                 (\<lambda>_. ret False)))
       (\<lambda>returned. if returned then ret () else emit (SetTimeout 5000 userId))"

text \<open>
  The listener of the \<open>'disconnected'\<close> event; the restart is not awaited. The callback
  the timer runs is \<open>initializeWhatsAppClient\<close>.
\<close>

definition on_disconnected :: "userId \<Rightarrow> string \<Rightarrow> wa_client option prog" where
  "on_disconnected userId reason =
     seq (logDebug ''waIntegration'' ''setupClientListeners''
            [S ''WhatsApp client for userId '', S userId, S '' disconnected: '', S reason])
       (\<lambda>_. seq (handleWhatsAppEvent userId ''disconnected'' (Str reason))
       (\<lambda>_. restartWhatsAppClient_start userId))"

definition timer_fired :: "platform \<Rightarrow> userId \<Rightarrow> unit prog" where
  "timer_fired pf userId = initializeWhatsAppClient_start pf userId"

section \<open>waLogic.js\<close>

subsection \<open>Outbound send\<close>

definition convertPhoneNumberToWaId :: "string \<Rightarrow> string" where
  "convertPhoneNumberToWaId phoneNumber =
     (if prefix ''972'' phoneNumber then phoneNumber @ ''@c.us''
      else if prefix ''0'' phoneNumber then ''972'' @ drop 1 phoneNumber @ ''@c.us''
      else phoneNumber @ ''@c.us'')"

text \<open>
  \<open>/^\d{10,}$/.test(recipient)\<close>: ten or more characters, each an ASCII digit, and
  nothing else. A missing recipient is tested as the text \<open>undefined\<close> and fails.
\<close>

definition is_digit :: "char \<Rightarrow> bool" where
  "is_digit c = (c \<in> set ''0123456789'')"

definition test_phone :: "string option \<Rightarrow> bool" where
  "test_phone rcpt =
     (case rcpt of None \<Rightarrow> False | Some r \<Rightarrow> 10 \<le> length r \<and> list_all is_digit r)"

definition recipientId :: "string option \<Rightarrow> string option" where
  "recipientId rcpt =
     (if test_phone rcpt then Some (convertPhoneNumberToWaId (the rcpt)) else rcpt)"

text \<open>
  \<open>UserSendMessage\<close> from the point where \<open>getConnectedClient\<close> has answered.
\<close>

definition UserSendMessage_resumed ::
  "userId \<Rightarrow> string option \<Rightarrow> string option \<Rightarrow> wa_client option \<Rightarrow> unit prog" where
  "UserSendMessage_resumed userId rcpt msg client =
     (case client of
        None \<Rightarrow>
          seq (logError ''waLogic'' ''UserSendMessage''
                 [S ''No active WhatsApp client for userId '', S userId])
            (\<lambda>_. sendMessageToClients userId
                    [(''event'', JStr ''error''), (''userid'', JStr userId),
                     (''message'', JStr ''WhatsApp client not connected'')] None)
      | Some c \<Rightarrow>
          seq (logDebug ''waLogic'' ''UserSendMessage''
                 [S ''Request to send from '', S userId, S '' to '', V (str_or_undefined rcpt),
                  S '' message: '', V (str_or_undefined msg)])
            (\<lambda>_. try_catch
                    (seq (emit (Backend userId (SendMessage (recipientId rcpt) msg)))
                       (\<lambda>_. case sendMessage c (recipientId rcpt) msg of
                               Some e \<Rightarrow> throw e
                             | None \<Rightarrow>
                                 seq (logDebug ''waLogic'' ''UserSendMessage''
                                        [S ''Message sent to '',
                                         V (str_or_undefined (recipientId rcpt)),
                                         S '' by user '', S userId])
                                   (\<lambda>_. sendMessageToClients userId
                                           [(''event'', JStr ''message_sent''),
                                            (''userid'', JStr userId),
                                            (''recipientId'', str_or_undefined (recipientId rcpt)),
                                            (''message'', str_or_undefined msg)] None)))
                    (\<lambda>error.
                       seq (logError ''waLogic'' ''UserSendMessage''
                              [S ''Failed to send message from userId '', S userId, S '': '',
                               S (message_of error)])
                         (\<lambda>_. sendMessageToClients userId
                                 [(''event'', JStr ''error''), (''userid'', JStr userId),
                                  (''message'', JStr (message_of error))] None))))"

definition UserSendMessage :: "userId \<Rightarrow> string option \<Rightarrow> string option \<Rightarrow> unit prog" where
  "UserSendMessage userId rcpt msg =
     seq (getConnectedClient userId) (UserSendMessage_resumed userId rcpt msg)"

subsection \<open>History retrieval\<close>

text \<open>
  A bound is \<open>null\<close> (\<open>None\<close>) or what \<open>getTime()\<close> gave. In a condition \<open>null\<close>,
  \<open>NaN\<close> and \<open>0\<close> are falsy; in a comparison \<open>null\<close> counts as \<open>0\<close> and \<open>NaN\<close>
  compares false.
\<close>

fun truthy_num :: "jsnum option \<Rightarrow> bool" where
  "truthy_num None = False"
| "truthy_num (Some NaN) = False"
| "truthy_num (Some (Number n)) = (n \<noteq> 0)"

fun isNaN :: "jsnum option \<Rightarrow> bool" where
  "isNaN (Some NaN) = True"
| "isNaN _ = False"

fun js_lt :: "int \<Rightarrow> jsnum option \<Rightarrow> bool" where
  "js_lt x None = (x < 0)"
| "js_lt x (Some NaN) = False"
| "js_lt x (Some (Number n)) = (x < n)"

fun js_ge :: "int \<Rightarrow> jsnum option \<Rightarrow> bool" where
  "js_ge x None = (x \<ge> 0)"
| "js_ge x (Some NaN) = False"
| "js_ge x (Some (Number n)) = (x \<ge> n)"

fun js_le :: "int \<Rightarrow> jsnum option \<Rightarrow> bool" where
  "js_le x None = (x \<le> 0)"
| "js_le x (Some NaN) = False"
| "js_le x (Some (Number n)) = (x \<le> n)"

text \<open>\<open>t ? new Date(t).getTime() : null\<close>\<close>

definition to_timestamp :: "platform \<Rightarrow> string option \<Rightarrow> jsnum option" where
  "to_timestamp pf t = (if truthy t then Some (Date_getTime pf (the t)) else None)"

text \<open>
  The loop over \<open>fetchLimits\<close>; the pair returned is \<open>(allMessages, fetched)\<close>, which
  start as \<open>[]\<close> and \<open>false\<close> and are assigned only where the loop breaks.
\<close>

fun fetch_loop ::
  "userId \<Rightarrow> wa_chat \<Rightarrow> jsnum option \<Rightarrow> nat list \<Rightarrow> (wa_message list \<times> bool) prog" where
  "fetch_loop userId chat startTimestamp [] = ret ([], False)"
| "fetch_loop userId chat startTimestamp (limit # limits) =
     seq (emit (Backend userId (FetchMessages limit)))
       (\<lambda>_. case fetchMessages chat limit of
               Inl e \<Rightarrow> throw e
             | Inr messages \<Rightarrow>
                 if messages \<noteq> [] \<and> truthy_num startTimestamp \<and>
                    js_lt (timestamp (hd messages) * 1000) startTimestamp
                 then seq (logDebug ''waLogic'' ''getGroupMessages''
                             [S ''Fetched '', N (int (length messages)),
                              S '' messages with limit '', N (int limit), S ''.''])
                        (\<lambda>_. ret (messages, True))
                 else fetch_loop userId chat startTimestamp limits)"

definition fetchLimits :: "nat list" where
  "fetchLimits = [50, 200, 500]"

text \<open>The predicate of \<open>allMessages.filter\<close>.\<close>

definition in_window :: "jsnum option \<Rightarrow> jsnum option \<Rightarrow> wa_message \<Rightarrow> bool" where
  "in_window startTimestamp endTimestamp msg =
     ((\<not> truthy_num startTimestamp \<or> js_ge (timestamp msg * 1000) startTimestamp) \<and>
      (\<not> truthy_num endTimestamp \<or> js_le (timestamp msg * 1000) endTimestamp))"

text \<open>
  \<open>filter\<close>, then \<open>sort((a, b) => a.timestamp - b.timestamp)\<close>, which is stable: the
  list \<open>filteredMessages\<close> as it is relayed.
\<close>

definition filteredMessages ::
  "jsnum option \<Rightarrow> jsnum option \<Rightarrow> wa_message list \<Rightarrow> wa_message list" where
  "filteredMessages startTimestamp endTimestamp allMessages =
     sort_key timestamp (filter (in_window startTimestamp endTimestamp) allMessages)"

text \<open>The object each message is mapped to in the \<open>group_messages\<close> response.\<close>

definition group_message :: "wa_message \<Rightarrow> jsobject" where
  "group_message msg =
     [(''id'', JStr (id_serialized msg)),
      (''timestamp'', JNum (timestamp msg * 1000)),
      (''sender'', JStr (if truthy (author msg) then the (author msg) else msg_from msg)),
      (''body'', JStr (body msg)),
      (''type'', JStr (msg_type msg)),
      (''reply'', str_or_null (quotedMsgId msg))]"

definition group_messages ::
  "userId \<Rightarrow> string option \<Rightarrow> string option \<Rightarrow> wa_message list \<Rightarrow> jsobject" where
  "group_messages userId groupId start_time msgs =
     [(''event'', JStr ''group_messages''),
      (''userid'', JStr userId),
      (''group_id'', str_or_undefined groupId),
      (''messages'', JArr (map (\<lambda>msg. JObj (group_message msg)) msgs)),
      (''date'', if truthy start_time
                 then JStr (takeWhile (\<lambda>c. c \<noteq> CHR ''T'') (the start_time)) else JNull)]"

definition str_of :: "string option \<Rightarrow> string" where
  "str_of x = (case x of None \<Rightarrow> ''undefined'' | Some s \<Rightarrow> s)"

text \<open>
  The part of the \<open>try\<close> block after the chat was found; \<open>start_time\<close> and
  \<open>end_time\<close> are the parameters \<open>startTime\<close> and \<open>endTime\<close>.
\<close>

definition fetch_and_relay ::
  "platform \<Rightarrow> userId \<Rightarrow> string option \<Rightarrow> string option \<Rightarrow> string option \<Rightarrow> wa_chat \<Rightarrow>
   unit prog" where
  "fetch_and_relay pf userId groupId start_time end_time chat =
     (if (truthy_num (to_timestamp pf start_time) \<and> isNaN (to_timestamp pf start_time)) \<or>
         (truthy_num (to_timestamp pf end_time) \<and> isNaN (to_timestamp pf end_time))
      then throw (Error ''Invalid startTime or endTime format'')
      else
        seq (fetch_loop userId chat (to_timestamp pf start_time) fetchLimits)
          (\<lambda>(allMessages, fetched).
        seq (if \<not> fetched
             then logDebug ''waLogic'' ''getGroupMessages''
                    [S ''Unable to fetch messages older than the start time.'']
             else ret ())
          (\<lambda>_.
        seq (if filter (in_window (to_timestamp pf start_time) (to_timestamp pf end_time))
                  allMessages = []
             then logDebug ''waLogic'' ''getGroupMessages''
                    [S ''No messages found within the specified timeframe.'']
             else ret ())
          (\<lambda>_.
        seq (logDebug ''waLogic'' ''getGroupMessages''
               [S ''Filtered '',
                N (int (length (filteredMessages (to_timestamp pf start_time)
                                  (to_timestamp pf end_time) allMessages))),
                S '' messages.''])
          (\<lambda>_.
        seq (sendMessageToClients userId
               (group_messages userId groupId start_time
                  (filteredMessages (to_timestamp pf start_time) (to_timestamp pf end_time)
                     allMessages)) None)
          (\<lambda>_. logDebug ''waLogic'' ''getGroupMessages''
                  [S ''Successfully sent filtered messages for userId '', S userId,
                   S '', group '', S (str_of groupId)]))))))"

text \<open>The \<open>try\<close> block from the point where \<open>getConnectedClient\<close> has answered.\<close>

definition getGroupMessages_with ::
  "platform \<Rightarrow> userId \<Rightarrow> string option \<Rightarrow> string option \<Rightarrow> string option \<Rightarrow>
   wa_client option \<Rightarrow> unit prog" where
  "getGroupMessages_with pf userId groupId start_time end_time client =
     (case client of
        None \<Rightarrow> throw (Error (''WhatsApp client not connected for userId '' @ userId))
      | Some c \<Rightarrow>
          seq (emit (Backend userId (GetChatById groupId)))
            (\<lambda>_. case getChatById c groupId of
                    Inl e \<Rightarrow> throw e
                  | Inr None \<Rightarrow> throw (Error (''Chat not found for group '' @ str_of groupId))
                  | Inr (Some chat) \<Rightarrow>
                      fetch_and_relay pf userId groupId start_time end_time chat))"

text \<open>The \<open>catch\<close> block.\<close>

definition getGroupMessages_catch :: "userId \<Rightarrow> string option \<Rightarrow> exn \<Rightarrow> unit prog" where
  "getGroupMessages_catch userId groupId error =
     seq (logError ''waLogic'' ''getGroupMessages''
            [S ''Error fetching messages for userId '', S userId, S '', groupId '',
             S (str_of groupId), S '': '', S (message_of error)])
       (\<lambda>_. sendMessageToClients userId
               [(''event'', JStr ''error''), (''userid'', JStr userId),
                (''message'', JStr (message_of error))] None)"

definition getGroupMessages ::
  "platform \<Rightarrow> userId \<Rightarrow> string option \<Rightarrow> string option \<Rightarrow> string option \<Rightarrow> unit prog" where
  "getGroupMessages pf userId groupId start_time end_time =
     try_catch
       (seq (logDebug ''waLogic'' ''getGroupMessages''
               [S ''Fetching messages for userId '', S userId, S '', groupId '',
                S (str_of groupId)])
          (\<lambda>_. seq (getConnectedClient userId)
                  (getGroupMessages_with pf userId groupId start_time end_time)))
       (getGroupMessages_catch userId groupId)"

definition getGroupMessages_resumed ::
  "platform \<Rightarrow> userId \<Rightarrow> string option \<Rightarrow> string option \<Rightarrow> string option \<Rightarrow>
   wa_client option \<Rightarrow> unit prog" where
  "getGroupMessages_resumed pf userId groupId start_time end_time client =
     try_catch (getGroupMessages_with pf userId groupId start_time end_time client)
       (getGroupMessages_catch userId groupId)"

subsection \<open>Group list, live messages and the dispatcher\<close>

text \<open>
  \<open>chatsJSON\<close>, filtered to the groups that are not archived, each mapped to
  \<open>{id, name, timestamp}\<close>.
\<close>

definition is_group :: "group_chat \<Rightarrow> bool" where
  "is_group chat = (chat_id_server chat = ''g.us'' \<and> chat_archived chat \<noteq> Some True)"

definition group_entry :: "group_chat \<Rightarrow> jsobject" where
  "group_entry chat =
     [(''id'', str_or_null (chat_id_serialized chat)),
      (''name'', JStr (if truthy (chat_name chat) then the (chat_name chat) else ''Unknown'')),
      (''timestamp'',
         (case chat_timestamp chat of
            None \<Rightarrow> JNull
          | Some n \<Rightarrow> if n = 0 then JNull else JNum n))]"

definition wait_for_pane :: "userId \<Rightarrow> wa_client \<Rightarrow> unit prog" where
  "wait_for_pane userId c =
     (case pupPage c of
        None \<Rightarrow> throw (TypeError ''Cannot read properties of undefined (reading waitForSelector)'')
      | Some page \<Rightarrow>
          seq (emit (Backend userId WaitForSelector))
            (\<lambda>_. case waitForSelector page of Some e \<Rightarrow> throw e | None \<Rightarrow> ret ()))"

definition getWhatsAppGroups_with :: "userId \<Rightarrow> wa_client option \<Rightarrow> unit prog" where
  "getWhatsAppGroups_with userId client =
     (case client of
        None \<Rightarrow> throw (Error (''WhatsApp client not connected for userId '' @ userId))
      | Some c \<Rightarrow>
          seq (wait_for_pane userId c)
            (\<lambda>_. seq (logDebug ''waLogic'' ''getWhatsAppGroups''
                        [S ''finish waiting for == waitForSelector''])
            (\<lambda>_. seq (emit (Backend userId GetGroupChats))
            (\<lambda>_. case getGroupChats c of
                    Inl e \<Rightarrow> throw e
                  | Inr chats \<Rightarrow>
                      seq (logDebug ''waLogic'' ''getWhatsAppGroups''
                             [S ''[DEBUG] Total chats retrieved: '', N (int (length chats))])
                        (\<lambda>_. seq (logDebug ''waLogic'' ''getWhatsAppGroups''
                                    [S ''[DEBUG] Filtered non-archived groups: '',
                                     N (int (length (filter is_group chats))), S '' groups''])
                        (\<lambda>_. seq (sendMessageToClients userId
                                    [(''event'', JStr ''group_list''),
                                     (''userid'', JStr userId),
                                     (''groups'',
                                        JArr (map (\<lambda>g. JObj (group_entry g))
                                                (filter is_group chats)))] None)
                        (\<lambda>_. logDebug ''waLogic'' ''getWhatsAppGroups''
                                [S ''Groups fetched and sent for user '', S userId])))))))"

definition getWhatsAppGroups_catch :: "userId \<Rightarrow> exn \<Rightarrow> unit prog" where
  "getWhatsAppGroups_catch userId error =
     seq (logError ''waLogic'' ''getWhatsAppGroups''
            [S ''Error fetching groups for userId '', S userId, S '': '',
             S (message_of error)])
       (\<lambda>_. sendMessageToClients userId
               [(''event'', JStr ''error''), (''userid'', JStr userId),
                (''message'', JStr (message_of error))] None)"

definition getWhatsAppGroups :: "userId \<Rightarrow> unit prog" where
  "getWhatsAppGroups userId =
     try_catch
       (seq (logDebug ''waLogic'' ''getWhatsAppGroups'' [S ''Fetching groups for userId '', S userId])
          (\<lambda>_. seq (getConnectedClient userId) (getWhatsAppGroups_with userId)))
       (getWhatsAppGroups_catch userId)"

definition getWhatsAppGroups_resumed :: "userId \<Rightarrow> wa_client option \<Rightarrow> unit prog" where
  "getWhatsAppGroups_resumed userId client =
     try_catch (getWhatsAppGroups_with userId client) (getWhatsAppGroups_catch userId)"

text \<open>
  The listener \<open>enableReceivingMessages\<close> registers for the \<open>'message'\<close> event.
\<close>

definition messageListener :: "userId \<Rightarrow> wa_message \<Rightarrow> unit prog" where
  "messageListener userId m =
     seq (logDebug ''waIntegration'' ''messageListener''
            [S ''Message received for userId '', S userId, S '': '', S (take 100 (body m))])
       (\<lambda>_. handleWhatsAppEvent userId ''message'' (Msg m))"

text \<open>
  \<open>enableReceivingMessages\<close> from the point where \<open>getConnectedClient\<close> has answered.
  The flag is set on the instance: the table shows it where it still holds that instance.
\<close>

definition enableReceivingMessages_resumed :: "userId \<Rightarrow> wa_client option \<Rightarrow> unit prog" where
  "enableReceivingMessages_resumed userId client =
     (case client of
        None \<Rightarrow>
          logError ''waLogic'' ''enableReceivingMessages''
            [S ''No active WhatsApp client for userId '', S userId]
      | Some c \<Rightarrow>
          if \<not> messageListenerAttached c
          then seq (emit (Backend userId OnMessage))
                 (\<lambda>_. seq (modify (\<lambda>g. if waClients g userId = Some c
                                        then g\<lparr>waClients :=
                                               (waClients g)(userId \<mapsto>
                                                  c\<lparr>messageListenerAttached := True\<rparr>)\<rparr>
                                        else g))
                 (\<lambda>_. logDebug ''waLogic'' ''enableReceivingMessages''
                         [S ''Enabled message reception for userId '', S userId]))
          else logDebug ''waLogic'' ''enableReceivingMessages''
                 [S ''Message listener already attached for userId '', S userId])"

definition enableReceivingMessages :: "userId \<Rightarrow> unit prog" where
  "enableReceivingMessages userId =
     seq (getConnectedClient userId) (enableReceivingMessages_resumed userId)"

definition handleClientRequest :: "platform \<Rightarrow> userId \<Rightarrow> request_data \<Rightarrow> unit prog" where
  "handleClientRequest pf userId requestData =
     seq (logDebug ''waLogic'' ''handleClientRequest'' [S ''Received request: '', R requestData])
       (\<lambda>_.
         if event requestData = Some ''initiate'' then
           seq (initializeWhatsAppClient pf userId) (\<lambda>_. ret ())
         else if event requestData = Some ''fetch_groups'' then
           getWhatsAppGroups userId
         else if event requestData = Some ''fetch_messages'' then
           getGroupMessages pf userId (group_id requestData)
             (or_null (startTime requestData)) (or_null (endTime requestData))
         else if event requestData = Some ''send_message'' then
           UserSendMessage userId (recipient requestData) (message requestData)
         else if event requestData = Some ''get_messages'' then
           enableReceivingMessages userId
         else
           logError ''waLogic'' ''handleClientRequest''
             [S ''Unhandled event: '', V (str_or_undefined (event requestData))])"

text \<open>
  \<open>handleClientRequest\<close> is an async function that the router calls without
  \<open>await\<close>. This is the part of it that runs inside the router: as far as the first
  \<open>await\<close> that has to wait, which is in \<open>initializeWhatsAppClient\<close> or in
  \<open>getConnectedClient\<close>.
\<close>

definition handleClientRequest_start :: "platform \<Rightarrow> userId \<Rightarrow> request_data \<Rightarrow> unit prog" where
  "handleClientRequest_start pf userId requestData =
     seq (logDebug ''waLogic'' ''handleClientRequest'' [S ''Received request: '', R requestData])
       (\<lambda>_.
         if event requestData = Some ''initiate'' then
           initializeWhatsAppClient_start pf userId
         else if event requestData = Some ''fetch_groups'' then
           seq (logDebug ''waLogic'' ''getWhatsAppGroups''
                  [S ''Fetching groups for userId '', S userId])
             (\<lambda>_. getConnectedClient_start userId)
         else if event requestData = Some ''fetch_messages'' then
           seq (logDebug ''waLogic'' ''getGroupMessages''
                  [S ''Fetching messages for userId '', S userId, S '', groupId '',
                   S (str_of (group_id requestData))])
             (\<lambda>_. getConnectedClient_start userId)
         else if event requestData = Some ''send_message'' then
           getConnectedClient_start userId
         else if event requestData = Some ''get_messages'' then
           getConnectedClient_start userId
         else
           logError ''waLogic'' ''handleClientRequest''
             [S ''Unhandled event: '', V (str_or_undefined (event requestData))])"

text \<open>
  The rest of a \<open>fetch_groups\<close>, \<open>fetch_messages\<close>, \<open>send_message\<close> or
  \<open>get_messages\<close> request, from the point where \<open>getConnectedClient\<close> has answered
  \<open>client\<close>.
\<close>

definition handleClientRequest_resumed ::
  "platform \<Rightarrow> userId \<Rightarrow> request_data \<Rightarrow> wa_client option \<Rightarrow> unit prog" where
  "handleClientRequest_resumed pf userId requestData client =
     (if event requestData = Some ''fetch_groups'' then
        getWhatsAppGroups_resumed userId client
      else if event requestData = Some ''fetch_messages'' then
        getGroupMessages_resumed pf userId (group_id requestData)
          (or_null (startTime requestData)) (or_null (endTime requestData)) client
      else if event requestData = Some ''send_message'' then
        UserSendMessage_resumed userId (recipient requestData) (message requestData) client
      else if event requestData = Some ''get_messages'' then
        enableReceivingMessages_resumed userId client
      else ret ())"


section \<open>waWSserver.js: the request handler\<close>

definition JSON_parse :: "frame \<Rightarrow> request_data prog" where
  "JSON_parse fr =
     (case fr of
        Unparseable m \<Rightarrow> throw (SyntaxError m)
      | ParsedNull \<Rightarrow> throw (TypeError ''Cannot read properties of null (reading user_id)'')
      | Parsed d \<Rightarrow> ret d)"

definition no_fields :: request_data where
  "no_fields =
     \<lparr>user_id = None, event = None, recipient = None, message = None,
      group_id = None, startTime = None, endTime = None\<rparr>"

text \<open>
  \<open>wsClientMap[wsid].userIds[userId].sendMessages = b\<close>. Where the lookup gives an
  inherited member, the property is written onto that member. The file is not in strict
  mode: the write to a boolean is dropped without an error.
\<close>

definition set_sendMessages :: "wsid \<Rightarrow> userId \<Rightarrow> bool \<Rightarrow> unit prog" where
  "set_sendMessages w userId b s =
     (case map_of (wsClientMap s) w of
        None \<Rightarrow> throw (TypeError ''Cannot read properties of undefined (reading userIds)'') s
      | Some cm \<Rightarrow>
          (case userIds_get s cm userId of
             Own sub \<Rightarrow>
               (s\<lparr>wsClientMap :=
                    AList.update w
                      (cm\<lparr>userIds := AList.update userId (sub\<lparr>sendMessages := b\<rparr>) (userIds cm)\<rparr>)
                      (wsClientMap s)\<rparr>,
                [], Inr ())
           | Member k \<Rightarrow>
               (s\<lparr>inherited_sendMessages := AList.update k b (inherited_sendMessages s)\<rparr>,
                [], Inr ())
           | Primitive p \<Rightarrow> (s, [], Inr ())
           | Undefined \<Rightarrow>
               throw (TypeError ''Cannot set properties of undefined (setting sendMessages)'') s))"

text \<open>The two guarded writes of the \<open>initiate\<close> case.\<close>

definition ensure_client_map :: "wsid \<Rightarrow> globals \<Rightarrow> globals" where
  "ensure_client_map w s =
     (if map_of (wsClientMap s) w = None
      then s\<lparr>wsClientMap := AList.update w \<lparr>userIds = []\<rparr> (wsClientMap s)\<rparr>
      else s)"

definition ensure_subscription :: "wsid \<Rightarrow> userId \<Rightarrow> globals \<Rightarrow> globals" where
  "ensure_subscription w userId s =
     (case map_of (wsClientMap s) w of
        None \<Rightarrow> s
      | Some cm \<Rightarrow>
          if \<not> truthy_property (userIds_get s cm userId)
          then s\<lparr>wsClientMap :=
                   AList.update w
                     (cm\<lparr>userIds := AList.update userId \<lparr>sendMessages = False\<rparr> (userIds cm)\<rparr>)
                     (wsClientMap s)\<rparr>
          else s)"

text \<open>
  A call \<open>handleClientRequest(userId, request)\<close> that is not awaited: the trace records
  the call as \<open>Dispatch\<close>, and the routine runs inside the handler as far as its first
  pause.
\<close>

definition call_handleClientRequest :: "platform \<Rightarrow> userId \<Rightarrow> request_data \<Rightarrow> unit prog" where
  "call_handleClientRequest pf userId requestData =
     seq (emit (Dispatch userId requestData))
       (\<lambda>_. handleClientRequest_start pf userId requestData)"

definition switch_event ::
  "platform \<Rightarrow> wsid \<Rightarrow> request_data \<Rightarrow> userId \<Rightarrow> string \<Rightarrow> unit prog" where
  "switch_event pf w d userId ev =
     (if ev = ''initiate'' then
        seq (logInfo ''waWSserver'' ''handleIncomingMessage''
               [S ''Client '', W w, S '' mapped to userId '', S userId])
          (\<lambda>_. seq (modify (ensure_client_map w))
          (\<lambda>_. seq (modify (ensure_subscription w userId))
          (\<lambda>_. call_handleClientRequest pf userId (no_fields\<lparr>event := Some ''initiate''\<rparr>))))
      else if ev = ''get_messages'' then
        seq (set_sendMessages w userId True)
          (\<lambda>_. logInfo ''waWSserver'' ''handleIncomingMessage''
                  [S ''Client '', W w, S '' enabled message reception for userId '', S userId])
      else if ev = ''stop_messages'' then
        seq (set_sendMessages w userId False)
          (\<lambda>_. logInfo ''waWSserver'' ''handleIncomingMessage''
                  [S ''Client '', W w, S '' disabled message reception for userId '', S userId])
      else if ev = ''get_groups'' then
        seq (logInfo ''waWSserver'' ''handleIncomingMessage''
               [S ''Client '', W w, S '' requested groups for userId '', S userId])
          (\<lambda>_. call_handleClientRequest pf userId (no_fields\<lparr>event := Some ''fetch_groups''\<rparr>))
      else if ev = ''send_message'' then
        seq (logInfo ''waWSserver'' ''handleIncomingMessage''
               [S ''Client '', W w, S '' requested send_message for userId '', S userId])
          (\<lambda>_. call_handleClientRequest pf userId
                  (no_fields\<lparr>event := Some ''send_message'', recipient := recipient d,
                     message := message d\<rparr>))
      else if ev = ''get_group_messages'' then
        (if \<not> truthy (group_id d)
         then throw (Error ''Missing 'group_id' for get_group_messages request.'')
         else
           seq (logInfo ''waWSserver'' ''handleIncomingMessage''
                  [S ''Client '', W w, S '' requested messages for group '',
                   V (str_or_undefined (group_id d)), S '' of userId '', S userId])
             (\<lambda>_. call_handleClientRequest pf userId
                     (no_fields\<lparr>event := Some ''fetch_messages'', group_id := group_id d,
                        startTime := or_null (startTime d), endTime := or_null (endTime d)\<rparr>)))
      else if ev = ''disconnect'' then
        seq (sendMessageToClients userId
               [(''event'', JStr ''disconnected''), (''userid'', JStr userId)] (Some [w]))
          (\<lambda>_. seq (delete_userId w userId)
          (\<lambda>_. logInfo ''waWSserver'' ''handleIncomingMessage''
                  [S ''Client '', W w, S '' disconnected from userId '', S userId]))
      else
        seq (logInfo ''waWSserver'' ''handleIncomingMessage''
               [S ''Received event '', S [CHR 0x27], S ev, S [CHR 0x27], S '' from userId '', S userId,
                S '' (wsid: '', W w, S '')''])
          (\<lambda>_. call_handleClientRequest pf userId d))"

text \<open>The \<open>try\<close> block.\<close>

definition handle_body :: "platform \<Rightarrow> wsid \<Rightarrow> frame \<Rightarrow> unit prog" where
  "handle_body pf w fr =
     seq (JSON_parse fr)
       (\<lambda>d. if \<not> truthy (user_id d) \<or> \<not> truthy (event d)
            then throw (Error ''Invalid message format. Must contain user_id and event.'')
            else switch_event pf w d (the (user_id d)) (the (event d)))"

text \<open>
  \<open>const data\<close> is declared inside the \<open>try\<close> block, and a \<open>const\<close> is scoped to its
  block. In the \<open>catch\<close> block the name \<open>data\<close> therefore resolves outside the function,
  where nothing of that name is declared, and \<open>typeof data\<close> is \<open>'undefined'\<close> whatever
  the frame was.
\<close>

definition data_in_catch_block :: "request_data option" where
  "data_in_catch_block = None"

definition handle_catch :: "exn \<Rightarrow> unit prog" where
  "handle_catch error =
     seq (logError ''waWSserver'' ''handleIncomingMessage''
            [S ''Failed to process message: '', S (message_of error)])
       (\<lambda>_. case data_in_catch_block of
               Some d \<Rightarrow>
                 if truthy (user_id d)
                 then sendMessageToClients (the (user_id d))
                        [(''status'', JStr ''error''), (''message'', JStr (message_of error))] None
                 else logError ''waWSserver'' ''handleIncomingMessage''
                        [S ''Cannot send error response - user_id is undefined.'']
             | None \<Rightarrow>
                 logError ''waWSserver'' ''handleIncomingMessage''
                   [S ''Cannot send error response - user_id is undefined.''])"

definition handleIncomingMessage :: "platform \<Rightarrow> wsid \<Rightarrow> frame \<Rightarrow> unit prog" where
  "handleIncomingMessage pf w fr = try_catch (handle_body pf w fr) handle_catch"

text \<open>The \<open>connection\<close> and \<open>close\<close> handlers of the listener.\<close>

definition onConnection :: "wsid \<Rightarrow> readyState \<Rightarrow> globals \<Rightarrow> globals" where
  "onConnection w ws s =
     s\<lparr>wsClients := AList.update w ws (wsClients s),
       wsClientMap := AList.update w \<lparr>userIds = []\<rparr> (wsClientMap s)\<rparr>"

definition handleClientDisconnection :: "wsid \<Rightarrow> unit prog" where
  "handleClientDisconnection w =
     seq (modify (\<lambda>s. s\<lparr>wsClients := AList.delete w (wsClients s),
                        wsClientMap := AList.delete w (wsClientMap s)\<rparr>))
       (\<lambda>_. logInfo ''waWSserver'' ''handleClientDisconnection''
               [S ''Client wsid '', W w, S '' fully disconnected.''])"

section \<open>The handlers as the event loop runs them\<close>

text \<open>
  Node runs one handler at a time, each to its end or to its next pause. An \<open>op\<close> is
  one such run: a frame arriving on a connection, a request going on after
  \<open>getConnectedClient\<close> has answered, an event of a user's client instance (the
  \<open>'qr'\<close> event with the variables its listener closes over), a pending \<open>destroy\<close> or
  \<open>getState\<close> settling, the restart timer firing.
\<close>

datatype op =
    Frame wsid frame
  | RequestResumed userId request_data "wa_client option"
  | QrEvent userId string listener_vars
  | AuthenticatedEvent userId
  | ReadyEvent userId
  | ErrorEvent userId string
  | MessageEvent userId wa_message
  | DisconnectedEvent userId string
  | DestroySettled userId wa_client
  | RestartResumed userId wa_client
  | TimerFired userId

text \<open>The state and the trace a run leaves; what it returns or throws goes nowhere.\<close>

definition outcome :: "'a prog \<Rightarrow> globals \<Rightarrow> globals \<times> effect list" where
  "outcome f s = (case f s of (s', es, r) \<Rightarrow> (s', es))"

fun perform :: "platform \<Rightarrow> op \<Rightarrow> globals \<Rightarrow> globals \<times> effect list" where
  "perform pf (Frame w fr) = outcome (handleIncomingMessage pf w fr)"
| "perform pf (RequestResumed u rd client) = outcome (handleClientRequest_resumed pf u rd client)"
| "perform pf (QrEvent u qr lv) = outcome (on_qr u qr lv)"
| "perform pf (AuthenticatedEvent u) = outcome (on_authenticated u)"
| "perform pf (ReadyEvent u) = outcome (on_ready u)"
| "perform pf (ErrorEvent u m) = outcome (on_error u m)"
| "perform pf (MessageEvent u m) = outcome (on_message u m)"
| "perform pf (DisconnectedEvent u reason) = outcome (on_disconnected u reason)"
| "perform pf (DestroySettled u client) = outcome (terminateWhatsAppClient_resumed u client)"
| "perform pf (RestartResumed u client) = outcome (restartWhatsAppClient_resumed u client)"
| "perform pf (TimerFired u) = outcome (timer_fired pf u)"

fun run :: "platform \<Rightarrow> op list \<Rightarrow> globals \<Rightarrow> globals \<times> effect list" where
  "run pf [] s = (s, [])"
| "run pf (x # xs) s =
     (case perform pf x s of
        (s1, es1) \<Rightarrow> (case run pf xs s1 of (s2, es2) \<Rightarrow> (s2, es1 @ es2)))"

text \<open>
  The runs that are neither a new \<open>initiate\<close> for the user nor left over from before
  the user's record went: every frame but an \<open>initiate\<close> of that user, the user's
  requests that found no session, every event of the user's old instance but
  \<open>'disconnected'\<close>, and whatever belongs to other users.
\<close>

fun is_initiate :: "userId \<Rightarrow> frame \<Rightarrow> bool" where
  "is_initiate u (Parsed d) = (user_id d = Some u \<and> event d = Some ''initiate'')"
| "is_initiate u _ = False"

fun no_new_session :: "userId \<Rightarrow> op \<Rightarrow> bool" where
  "no_new_session u (Frame w fr) = (\<not> is_initiate u fr)"
| "no_new_session u (RequestResumed u' rd client) = (u' = u \<longrightarrow> client = None)"
| "no_new_session u (QrEvent u' qr lv) = True"
| "no_new_session u (AuthenticatedEvent u') = True"
| "no_new_session u (ReadyEvent u') = True"
| "no_new_session u (ErrorEvent u' m) = True"
| "no_new_session u (MessageEvent u' m) = True"
| "no_new_session u (DisconnectedEvent u' reason) = (u' \<noteq> u)"
| "no_new_session u (DestroySettled u' client) = (u' \<noteq> u)"
| "no_new_session u (RestartResumed u' client) = (u' \<noteq> u)"
| "no_new_session u (TimerFired u') = (u' \<noteq> u)"

section \<open>The spec's schema, and concrete inputs\<close>

text \<open>
  The normalized content-message schema as the specification words it:
  \<open>{id, timestamp (ms), sender, body, type, replyToId?}\<close>.
\<close>

definition spec_schema :: "jsobject \<Rightarrow> bool" where
  "spec_schema obj =
     (set (map fst obj) = {''id'', ''timestamp'', ''sender'', ''body'', ''type''} \<or>
      set (map fst obj) = {''id'', ''timestamp'', ''sender'', ''body'', ''type'', ''replyToId''})"

fun is_Send :: "effect \<Rightarrow> bool" where
  "is_Send (Send w m) = True"
| "is_Send _ = False"

fun is_Backend :: "effect \<Rightarrow> bool" where
  "is_Backend (Backend u b) = True"
| "is_Backend _ = False"

fun is_SendMessage :: "effect \<Rightarrow> bool" where
  "is_SendMessage (Backend u (SendMessage r m)) = True"
| "is_SendMessage _ = False"

text \<open>The frames of a trace, in the order they were written.\<close>

fun frames :: "effect list \<Rightarrow> jsobject list" where
  "frames [] = []"
| "frames (Send w m # es) = m # frames es"
| "frames (e # es) = frames es"

definition example_message :: "int \<Rightarrow> wa_message" where
  "example_message t =
     \<lparr>id_serialized = ''msg'', timestamp = t, author = Some ''972500000001@c.us'',
      msg_from = ''1203630@g.us'', body = ''hello'', msg_type = ''chat'',
      quotedMsgId = Some ''quoted'', isGroupMsg = Some True\<rparr>"

text \<open>A message of a direct chat: no author, no group flag, nothing quoted.\<close>

definition example_direct_message :: wa_message where
  "example_direct_message =
     \<lparr>id_serialized = ''msg2'', timestamp = 300, author = None,
      msg_from = ''972500000002@c.us'', body = ''hi'', msg_type = ''chat'',
      quotedMsgId = None, isGroupMsg = None\<rparr>"

definition example_chat :: wa_chat where
  "example_chat = \<lparr>fetchMessages = (\<lambda>limit. Inr [example_message 200])\<rparr>"

text \<open>A chat whose first fetch reaches back before 150000 ms.\<close>

definition example_older_chat :: wa_chat where
  "example_older_chat =
     \<lparr>fetchMessages = (\<lambda>limit. Inr [example_message 100, example_message 200])\<rparr>"

definition example_client :: wa_client where
  "example_client =
     \<lparr>getState = Inr ''CONNECTED'', initialize = None, destroy = None,
      pupPage = Some \<lparr>waitForSelector = None, close = None\<rparr>,
      getChatById = (\<lambda>g. if g = Some ''g2'' then Inr (Some example_older_chat)
                          else Inr (Some example_chat)),
      getGroupChats = Inr [],
      sendMessage = (\<lambda>r m. None),
      messageListenerAttached = False,
      property_names = [''options'', ''getState'', ''initialize'', ''destroy'']\<rparr>"

definition example_platform :: platform where
  "example_platform =
     \<lparr>Date_getTime =
        (\<lambda>t. if t = ''1970-01-01T00:02:30Z'' then Number 150000
             else if t = ''1970-01-01T00:00:00Z'' then Number 0
             else NaN),
      new_Client = (\<lambda>u. example_client)\<rparr>"

definition example_globals :: globals where
  "example_globals =
     \<lparr>wsClients = [(WsId 1001 7, OPEN), (WsId 1002 8, OPEN), (WsId 1003 9, CLOSED)],
      wsClientMap =
        [(WsId 1001 7, \<lparr>userIds = [(''u1'', \<lparr>sendMessages = True\<rparr>)]\<rparr>),
         (WsId 1002 8, \<lparr>userIds = [(''u1'', \<lparr>sendMessages = False\<rparr>),
                                (''u2'', \<lparr>sendMessages = False\<rparr>)]\<rparr>),
         (WsId 1003 9, \<lparr>userIds = [(''u1'', \<lparr>sendMessages = True\<rparr>)]\<rparr>)],
      waClients = [''u1'' \<mapsto> example_client],
      inherited_sendMessages = []\<rparr>"

definition example_stuck_client :: wa_client where
  "example_stuck_client = example_client\<lparr>destroy := Some (Error ''Target closed'')\<rparr>"

definition example_stuck_globals :: globals where
  "example_stuck_globals = example_globals\<lparr>waClients := [''u1'' \<mapsto> example_stuck_client]\<rparr>"

text \<open>The tables after the record of \<open>u1\<close> has gone.\<close>

definition example_removed_globals :: globals where
  "example_removed_globals = example_globals\<lparr>waClients := Map.empty\<rparr>"

section \<open>Properties of the connection registry and the router\<close>

lemmas prog_defs = ret_def throw_def seq_def try_catch_def emit_def modify_def
  logInfo_def logDebug_def logError_def

lemma map_of_Some_key: "map_of al k = Some v \<Longrightarrow> k \<in> fst ` set al"
  by (force dest: map_of_SomeD)

text \<open>
  A user identifier under which an empty object inherits nothing: then the lookups read
  the stored subscriptions and nothing else.
\<close>

lemma userIds_get_plain:
  "inherited_value s U = Undefined \<Longrightarrow>
   userIds_get s cm U = (case map_of (userIds cm) U of Some sub \<Rightarrow> Own sub | None \<Rightarrow> Undefined)"
  by (simp add: userIds_get_def split: option.splits)

lemma subscribed_plain:
  "inherited_value s U = Undefined \<Longrightarrow>
   subscribed s U c \<longleftrightarrow>
     (\<exists>cm sub. map_of (wsClientMap s) c = Some cm \<and> map_of (userIds cm) U = Some sub)"
  by (auto simp: subscribed_def userIds_get_plain split: option.splits)

lemma read_sendMessages_subscribed:
  "subscribed s U c \<Longrightarrow> \<exists>b. read_sendMessages s U c = Inr b"
proof -
  assume sub: "subscribed s U c"
  then obtain cm where cm: "map_of (wsClientMap s) c = Some cm"
    and t: "truthy_property (userIds_get s cm U)"
    by (auto simp: subscribed_def split: option.splits)
  from t show ?thesis
    by (cases "userIds_get s cm U") (simp_all add: read_sendMessages_def cm)
qed

lemma read_sendMessages_plain:
  "inherited_value s U = Undefined \<Longrightarrow>
   read_sendMessages s U c = Inr True \<longleftrightarrow>
     (\<exists>cm sub. map_of (wsClientMap s) c = Some cm \<and> map_of (userIds cm) U = Some sub \<and>
        sendMessages sub)"
  by (auto simp: read_sendMessages_def userIds_get_plain split: option.splits)

lemma filter_sendMessages_subscribed:
  "\<forall>c\<in>set cs. subscribed s U c \<Longrightarrow>
   filter_sendMessages s U cs = Inr (filter (\<lambda>c. read_sendMessages s U c = Inr True) cs)"
proof (induction cs)
  case Nil
  then show ?case by simp
next
  case (Cons c cs)
  then obtain b where "read_sendMessages s U c = Inr b"
    using read_sendMessages_subscribed by fastforce
  with Cons show ?case by simp
qed

lemma set_targetClients: "set (targetClients s U None) = {c. subscribed s U c}"
  by (auto simp: targetClients_def subscribed_def map_of_Some_key split: option.splits)

lemma set_targetClients_plain:
  "inherited_value s U = Undefined \<Longrightarrow>
   set (targetClients s U None) =
     {c. \<exists>cm sub. map_of (wsClientMap s) c = Some cm \<and> map_of (userIds cm) U = Some sub}"
  by (simp add: set_targetClients subscribed_plain)

lemma targetClients_subscribed: "\<forall>c\<in>set (targetClients s U None). subscribed s U c"
  by (simp add: targetClients_def)

lemma targetClients_keys: "set (targetClients s U None) \<subseteq> fst ` set (wsClientMap s)"
  by (auto simp: targetClients_def)

lemma filter_sendMessages_targets:
  "filter_sendMessages s U (targetClients s U None) =
     Inr (filter (\<lambda>c. read_sendMessages s U c = Inr True) (targetClients s U None))"
  by (rule filter_sendMessages_subscribed[OF targetClients_subscribed])

lemma set_delivery_targets_plain:
  "inherited_value s U = Undefined \<Longrightarrow>
   set (filter (\<lambda>c. read_sendMessages s U c = Inr True) (targetClients s U None)) =
     {c. \<exists>cm sub. map_of (wsClientMap s) c = Some cm \<and> map_of (userIds cm) U = Some sub \<and>
           sendMessages sub}"
  by (auto simp: set_targetClients_plain read_sendMessages_plain)

text \<open>
  One step of the fan-out: the sockets, the backend table and the inherited flags stay as
  they are, the keys of the registry stay as they are, and a frame is written exactly when
  the socket is open.
\<close>

lemma send_to_result:
  "send_to U msg c s = (s', es, r) \<Longrightarrow>
     wsClients s' = wsClients s \<and> waClients s' = waClients s \<and>
     inherited_sendMessages s' = inherited_sendMessages s \<and>
     (map_of (wsClientMap s) c \<noteq> None \<longrightarrow> r = Inr ()) \<and>
     map fst (wsClientMap s') = map fst (wsClientMap s) \<and>
     filter is_Send es =
       (if map_of (wsClients s) c = Some OPEN then [Send c (JSON_stringify msg)] else []) \<and>
     filter is_Backend es = []"
  by (auto simp: send_to_def delete_userId_def prog_defs update_keys map_of_Some_key
      split: if_splits option.splits)

lemma forEach_send_result:
  "forEach_send U msg cs s = (s', es, r) \<Longrightarrow> set cs \<subseteq> fst ` set (wsClientMap s) \<Longrightarrow>
     wsClients s' = wsClients s \<and> waClients s' = waClients s \<and>
     inherited_sendMessages s' = inherited_sendMessages s \<and> r = Inr () \<and>
     map fst (wsClientMap s') = map fst (wsClientMap s) \<and>
     filter is_Send es =
       map (\<lambda>c. Send c (JSON_stringify msg))
         (filter (\<lambda>c. map_of (wsClients s) c = Some OPEN) cs) \<and>
     filter is_Backend es = []"
proof (induction cs arbitrary: s s' es r)
  case Nil
  then show ?case by (simp add: prog_defs)
next
  case (Cons c cs)
  obtain s1 es1 r1 where one: "send_to U msg c s = (s1, es1, r1)"
    by (cases "send_to U msg c s") auto
  have inmap: "map_of (wsClientMap s) c \<noteq> None"
    using Cons.prems(2) by (simp add: map_of_eq_None_iff)
  from send_to_result[OF one] inmap
  have f1: "wsClients s1 = wsClients s" "waClients s1 = waClients s"
    "inherited_sendMessages s1 = inherited_sendMessages s" "r1 = Inr ()"
    "map fst (wsClientMap s1) = map fst (wsClientMap s)"
    "filter is_Send es1 =
       (if map_of (wsClients s) c = Some OPEN then [Send c (JSON_stringify msg)] else [])"
    "filter is_Backend es1 = []"
    by auto
  obtain s2 es2 r2 where rest: "forEach_send U msg cs s1 = (s2, es2, r2)"
    by (cases "forEach_send U msg cs s1") auto
  have sub: "set cs \<subseteq> fst ` set (wsClientMap s1)"
    using Cons.prems(2) f1(5) by (metis set_map set_subset_Cons subset_trans)
  from Cons.IH[OF rest sub]
  have f2: "wsClients s2 = wsClients s1" "waClients s2 = waClients s1"
    "inherited_sendMessages s2 = inherited_sendMessages s1" "r2 = Inr ()"
    "map fst (wsClientMap s2) = map fst (wsClientMap s1)"
    "filter is_Send es2 =
       map (\<lambda>c. Send c (JSON_stringify msg))
         (filter (\<lambda>c. map_of (wsClients s1) c = Some OPEN) cs)"
    "filter is_Backend es2 = []"
    by auto
  have res: "s' = s2" "es = es1 @ es2" "r = r2"
    using Cons.prems(1) one rest f1(4) by (auto simp: seq_def)
  show ?case
    unfolding res using f1 f2 by simp
qed

lemma sendMessageToClients_message:
  assumes ev: "field msg ''event'' = JStr ''message''"
  shows "sendMessageToClients U msg None s =
     (let D = filter (\<lambda>c. read_sendMessages s U c = Inr True) (targetClients s U None) in
      if D = []
      then (s, [Log INFO ''waWSserver'' ''sendMessageToClients''
                  [S ''Sending message to '', S U, S '', message type: '', V (JStr ''message'')],
                Log INFO ''waWSserver'' ''sendMessageToClients''
                  [S ''No active clients found for userId '', S U, S '' messges'']], Inr ())
      else (case forEach_send U msg D s of (s', es, r) \<Rightarrow>
              (s', Log INFO ''waWSserver'' ''sendMessageToClients''
                  [S ''Sending message to '', S U, S '', message type: '',
                   V (JStr ''message'')] # es, r)))"
  by (simp add: sendMessageToClients_def ev filter_sendMessages_targets prog_defs Let_def)

lemma sendMessageToClients_other:
  assumes ev: "field msg ''event'' \<noteq> JStr ''message''"
  shows "sendMessageToClients U msg None s =
     (let A = targetClients s U None in
      if A = []
      then (s, [Log INFO ''waWSserver'' ''sendMessageToClients''
                  [S ''Sending message to '', S U, S '', message type: '', V (field msg ''event'')],
                Log ERROR ''waWSserver'' ''sendMessageToClients''
                  [S ''No active clients found for userId '', S U]], Inr ())
      else (case forEach_send U msg A s of (s', es, r) \<Rightarrow>
              (s', Log INFO ''waWSserver'' ''sendMessageToClients''
                  [S ''Sending message to '', S U, S '', message type: '',
                   V (field msg ''event'')] # es, r)))"
  by (simp add: sendMessageToClients_def ev prog_defs Let_def)

text \<open>
  What one relay does, whatever the event: it returns, it leaves the sockets, the backend
  table and the inherited flags alone, it makes no backend call, and it writes the frame
  once to each open target, in registration order.
\<close>

lemma sendMessageToClients_result:
  assumes run: "sendMessageToClients U msg None s = (s', es, r)"
  shows "r = Inr () \<and> wsClients s' = wsClients s \<and> waClients s' = waClients s \<and>
     inherited_sendMessages s' = inherited_sendMessages s \<and>
     filter is_Backend es = [] \<and>
     filter is_Send es =
       map (\<lambda>c. Send c (JSON_stringify msg))
         (filter (\<lambda>c. map_of (wsClients s) c = Some OPEN)
            (if field msg ''event'' = JStr ''message''
             then filter (\<lambda>c. read_sendMessages s U c = Inr True) (targetClients s U None)
             else targetClients s U None))"
proof (cases "field msg ''event'' = JStr ''message''")
  case True
  let ?D = "filter (\<lambda>c. read_sendMessages s U c = Inr True) (targetClients s U None)"
  show ?thesis
  proof (cases "?D = []")
    case empty: True
    with run True show ?thesis
      by (auto simp: sendMessageToClients_message[OF True])
  next
    case False
    obtain s1 es1 r1 where fe: "forEach_send U msg ?D s = (s1, es1, r1)"
      by (cases "forEach_send U msg ?D s") auto
    have sub: "set ?D \<subseteq> fst ` set (wsClientMap s)"
      using targetClients_keys by fastforce
    from run False fe have res: "s' = s1" "r = r1"
      "es = Log INFO ''waWSserver'' ''sendMessageToClients''
              [S ''Sending message to '', S U, S '', message type: '', V (JStr ''message'')] # es1"
      by (simp_all add: sendMessageToClients_message[OF True])
    from forEach_send_result[OF fe sub] True show ?thesis
      unfolding res by simp
  qed
next
  case other: False
  let ?A = "targetClients s U None"
  show ?thesis
  proof (cases "?A = []")
    case empty: True
    with run other show ?thesis
      by (auto simp: sendMessageToClients_other[OF other])
  next
    case False
    obtain s1 es1 r1 where fe: "forEach_send U msg ?A s = (s1, es1, r1)"
      by (cases "forEach_send U msg ?A s") auto
    from run False fe have res: "s' = s1" "r = r1"
      "es = Log INFO ''waWSserver'' ''sendMessageToClients''
              [S ''Sending message to '', S U, S '', message type: '', V (field msg ''event'')] # es1"
      by (simp_all add: sendMessageToClients_other[OF other])
    from forEach_send_result[OF fe targetClients_keys] other show ?thesis
      unfolding res by simp
  qed
qed

text \<open>
  C5. Let \<open>U\<close> be a user identifier under which an empty object inherits nothing. For a
  content message (\<open>event = 'message'\<close>) the targets are exactly the connections whose
  subscription to the user has \<open>sendMessages\<close> set; for any other event they are all
  connections subscribed to the user, whatever the flag. The frame then reaches exactly the
  open ones among the targets, and the relay never throws. When the restricted set is empty
  the relay only logs, at level INFO: the tables are unchanged and nothing is sent.

  For a user identifier that names a member of \<open>Object.prototype\<close> the lookup finds that
  member on every connection: in the example registry no connection holds a subscription
  to \<open>constructor\<close>, and all three are targets of its \<open>ready\<close> event, which is written
  to the two open ones.
\<close>

theorem sendMessageToClients_targets:
  "(inherited_value s U = Undefined \<longrightarrow>
     set (targetClients s U None) =
       {c. \<exists>cm sub. map_of (wsClientMap s) c = Some cm \<and> map_of (userIds cm) U = Some sub}
     \<and> (\<exists>D. filter_sendMessages s U (targetClients s U None) = Inr D \<and>
            set D = {c. \<exists>cm sub. map_of (wsClientMap s) c = Some cm \<and>
                          map_of (userIds cm) U = Some sub \<and> sendMessages sub})
     \<and> (\<forall>s' es r. sendMessageToClients U msg None s = (s', es, r) \<longrightarrow>
            r = Inr () \<and>
            (\<forall>c m. Send c m \<in> set es \<longleftrightarrow>
               m = JSON_stringify msg \<and> map_of (wsClients s) c = Some OPEN \<and>
               (\<exists>cm sub. map_of (wsClientMap s) c = Some cm \<and> map_of (userIds cm) U = Some sub \<and>
                  (field msg ''event'' = JStr ''message'' \<longrightarrow> sendMessages sub))))
     \<and> (field msg ''event'' = JStr ''message'' \<and>
          {c. \<exists>cm sub. map_of (wsClientMap s) c = Some cm \<and>
                map_of (userIds cm) U = Some sub \<and> sendMessages sub} = {} \<longrightarrow>
          sendMessageToClients U msg None s =
            (s, [Log INFO ''waWSserver'' ''sendMessageToClients''
                   [S ''Sending message to '', S U, S '', message type: '', V (JStr ''message'')],
                 Log INFO ''waWSserver'' ''sendMessageToClients''
                   [S ''No active clients found for userId '', S U, S '' messges'']], Inr ())))
   \<and> filter (\<lambda>p. map_of (userIds (snd p)) ''constructor'' \<noteq> None) (wsClientMap example_globals)
       = []
   \<and> targetClients example_globals ''constructor'' None = [WsId 1001 7, WsId 1002 8, WsId 1003 9]
   \<and> filter is_Send
        (fst (snd (sendMessageToClients ''constructor''
                     [(''event'', JStr ''ready''), (''userid'', JStr ''constructor'')] None
                     example_globals))) =
       [Send (WsId 1001 7) [(''event'', JStr ''ready''), (''userid'', JStr ''constructor'')],
        Send (WsId 1002 8) [(''event'', JStr ''ready''), (''userid'', JStr ''constructor'')]]"
proof (intro conjI allI impI)
  assume plain: "inherited_value s U = Undefined"
  show "set (targetClients s U None) =
     {c. \<exists>cm sub. map_of (wsClientMap s) c = Some cm \<and> map_of (userIds cm) U = Some sub}"
    by (rule set_targetClients_plain[OF plain])
next
  assume plain: "inherited_value s U = Undefined"
  show "\<exists>D. filter_sendMessages s U (targetClients s U None) = Inr D \<and>
          set D = {c. \<exists>cm sub. map_of (wsClientMap s) c = Some cm \<and>
                        map_of (userIds cm) U = Some sub \<and> sendMessages sub}"
    using filter_sendMessages_targets set_delivery_targets_plain[OF plain] by blast
next
  fix s' es r
  assume plain: "inherited_value s U = Undefined"
  assume run: "sendMessageToClients U msg None s = (s', es, r)"
  note res = sendMessageToClients_result[OF run]
  from res show "r = Inr ()" by simp
  have sends: "\<And>c m. Send c m \<in> set es \<longleftrightarrow> Send c m \<in> set (filter is_Send es)"
    by simp
  show "\<And>c m. Send c m \<in> set es \<longleftrightarrow>
             m = JSON_stringify msg \<and> map_of (wsClients s) c = Some OPEN \<and>
             (\<exists>cm sub. map_of (wsClientMap s) c = Some cm \<and> map_of (userIds cm) U = Some sub \<and>
                (field msg ''event'' = JStr ''message'' \<longrightarrow> sendMessages sub))"
  proof (cases "field msg ''event'' = JStr ''message''")
    case True
    have "set (filter is_Send es) =
        (\<lambda>c. Send c (JSON_stringify msg)) `
          {c \<in> set (filter (\<lambda>c. read_sendMessages s U c = Inr True) (targetClients s U None)).
             map_of (wsClients s) c = Some OPEN}"
      using res True by simp
    then show "\<And>c m. Send c m \<in> set es \<longleftrightarrow>
             m = JSON_stringify msg \<and> map_of (wsClients s) c = Some OPEN \<and>
             (\<exists>cm sub. map_of (wsClientMap s) c = Some cm \<and> map_of (userIds cm) U = Some sub \<and>
                (field msg ''event'' = JStr ''message'' \<longrightarrow> sendMessages sub))"
      unfolding sends set_delivery_targets_plain[OF plain] using True by auto
  next
    case False
    have "set (filter is_Send es) =
        (\<lambda>c. Send c (JSON_stringify msg)) `
          {c \<in> set (targetClients s U None). map_of (wsClients s) c = Some OPEN}"
      using res False by simp
    then show "\<And>c m. Send c m \<in> set es \<longleftrightarrow>
             m = JSON_stringify msg \<and> map_of (wsClients s) c = Some OPEN \<and>
             (\<exists>cm sub. map_of (wsClientMap s) c = Some cm \<and> map_of (userIds cm) U = Some sub \<and>
                (field msg ''event'' = JStr ''message'' \<longrightarrow> sendMessages sub))"
      unfolding sends set_targetClients_plain[OF plain] using False by auto
  qed
next
  assume plain: "inherited_value s U = Undefined"
  assume a: "field msg ''event'' = JStr ''message'' \<and>
        {c. \<exists>cm sub. map_of (wsClientMap s) c = Some cm \<and>
              map_of (userIds cm) U = Some sub \<and> sendMessages sub} = {}"
  then have "filter (\<lambda>c. read_sendMessages s U c = Inr True) (targetClients s U None) = []"
    using set_delivery_targets_plain[OF plain] by (metis set_empty)
  with a show "sendMessageToClients U msg None s =
          (s, [Log INFO ''waWSserver'' ''sendMessageToClients''
                 [S ''Sending message to '', S U, S '', message type: '', V (JStr ''message'')],
               Log INFO ''waWSserver'' ''sendMessageToClients''
                 [S ''No active clients found for userId '', S U, S '' messges'']], Inr ())"
    by (simp add: sendMessageToClients_message)
next
  show "filter (\<lambda>p. map_of (userIds (snd p)) ''constructor'' \<noteq> None) (wsClientMap example_globals)
       = []"
    by (simp add: example_globals_def)
next
  show tc: "targetClients example_globals ''constructor'' None = [WsId 1001 7, WsId 1002 8, WsId 1003 9]"
    by (simp add: targetClients_def subscribed_def userIds_get_def inherited_value_def
        prototype_keys_def example_globals_def)
  show "filter is_Send
        (fst (snd (sendMessageToClients ''constructor''
                     [(''event'', JStr ''ready''), (''userid'', JStr ''constructor'')] None
                     example_globals))) =
       [Send (WsId 1001 7) [(''event'', JStr ''ready''), (''userid'', JStr ''constructor'')],
        Send (WsId 1002 8) [(''event'', JStr ''ready''), (''userid'', JStr ''constructor'')]]"
    by (simp add: sendMessageToClients_def tc field_def prog_defs send_to_def delete_userId_def
        JSON_stringify_def)
       (simp add: example_globals_def)
qed

theorem sendMessageToClients_targets_witness:
  "inherited_value example_globals ''u1'' = Undefined
   \<and> set (targetClients example_globals ''u1'' None) = {WsId 1001 7, WsId 1002 8, WsId 1003 9}
   \<and> sendMessageToClients ''u2'' [(''event'', JStr ''message'')] None example_globals =
       (example_globals,
        [Log INFO ''waWSserver'' ''sendMessageToClients''
           [S ''Sending message to '', S ''u2'', S '', message type: '', V (JStr ''message'')],
         Log INFO ''waWSserver'' ''sendMessageToClients''
           [S ''No active clients found for userId '', S ''u2'', S '' messges'']], Inr ())"
proof -
  have p1: "inherited_value example_globals ''u1'' = Undefined"
    by (simp add: inherited_value_def prototype_keys_def)
  have p2: "inherited_value example_globals ''u2'' = Undefined"
    by (simp add: inherited_value_def prototype_keys_def)
  have all: "{c. \<exists>cm sub. map_of (wsClientMap example_globals) c = Some cm \<and>
                 map_of (userIds cm) ''u1'' = Some sub} = {WsId 1001 7, WsId 1002 8, WsId 1003 9}"
    by (auto simp: example_globals_def split: if_splits)
  have none: "field [(''event'', JStr ''message'')] ''event'' = JStr ''message'' \<and>
      {c. \<exists>cm sub. map_of (wsClientMap example_globals) c = Some cm \<and>
            map_of (userIds cm) ''u2'' = Some sub \<and> sendMessages sub} = {}"
    by (auto simp: example_globals_def field_def split: if_splits)
  from sendMessageToClients_targets[where s = example_globals and U = "''u1''" and msg = "[]"]
    p1 all
  have one: "set (targetClients example_globals ''u1'' None) = {WsId 1001 7, WsId 1002 8, WsId 1003 9}"
    by simp
  from sendMessageToClients_targets[where s = example_globals and U = "''u2''"
      and msg = "[(''event'', JStr ''message'')]"] p2 none
  have two: "sendMessageToClients ''u2'' [(''event'', JStr ''message'')] None example_globals =
       (example_globals,
        [Log INFO ''waWSserver'' ''sendMessageToClients''
           [S ''Sending message to '', S ''u2'', S '', message type: '', V (JStr ''message'')],
         Log INFO ''waWSserver'' ''sendMessageToClients''
           [S ''No active clients found for userId '', S ''u2'', S '' messges'']], Inr ())"
    by blast
  from p1 one two show ?thesis by simp
qed

subsection \<open>Subscribing\<close>

text \<open>
  The part of a request that runs inside the router returns, writes no frame and leaves
  the registry alone; only the session table may have changed.
\<close>

lemma getConnectedClient_start_result:
  "getConnectedClient_start U s = (s', es, r) \<Longrightarrow>
     r = Inr () \<and> s' = s \<and> filter is_Send es = []"
  by (auto simp: getConnectedClient_start_def prog_defs split: client_ref.splits)

lemma create_client_start_result:
  "create_client_start pf U s = (s', es, r) \<Longrightarrow>
     r = Inr () \<and> s' = s\<lparr>waClients := (waClients s)(U \<mapsto> new_Client pf U)\<rparr> \<and>
     filter is_Send es = []"
  by (auto simp: create_client_start_def assign_waClient_def setupClientListeners_def prog_defs)

lemma initializeWhatsAppClient_start_result:
  "initializeWhatsAppClient_start pf U s = (s', es, r) \<Longrightarrow>
     r = Inr () \<and> filter is_Send es = [] \<and>
     s' = (case waClients_get s U of
             Client c \<Rightarrow> s
           | _ \<Rightarrow> s\<lparr>waClients := (waClients s)(U \<mapsto> new_Client pf U)\<rparr>)"
proof (cases "waClients_get s U")
  case (Client c)
  assume "initializeWhatsAppClient_start pf U s = (s', es, r)"
  with Client show ?thesis
    by (auto simp: initializeWhatsAppClient_start_def prog_defs)
next
  case NotAClient
  assume run: "initializeWhatsAppClient_start pf U s = (s', es, r)"
  let ?t = "if U = ''__proto__'' then s else s\<lparr>waClients := (waClients s)(U := None)\<rparr>"
  obtain s1 es1 r1 where c: "create_client_start pf U ?t = (s1, es1, r1)"
    by (cases "create_client_start pf U ?t") auto
  from create_client_start_result[OF c]
  have f: "r1 = Inr ()" "s1 = ?t\<lparr>waClients := (waClients ?t)(U \<mapsto> new_Client pf U)\<rparr>"
    "filter is_Send es1 = []"
    by auto
  from run NotAClient c have "s' = s1" "r = r1"
    "es = Log ERROR ''waIntegration'' ''initializeWhatsAppClient''
            [S ''Error checking state for userId '', S U, S '': '',
             S ''existingClient.getState is not a function'',
             S ''. Reinitializing new client.''] # es1"
    by (auto simp: initializeWhatsAppClient_start_def delete_waClient_def prog_defs
        split: if_splits)
  with f NotAClient show ?thesis by auto
next
  case Falsy
  assume "initializeWhatsAppClient_start pf U s = (s', es, r)"
  with Falsy create_client_start_result[of pf U s s' es r] show ?thesis
    by (auto simp: initializeWhatsAppClient_start_def)
qed

lemma handleClientRequest_start_result:
  assumes "handleClientRequest_start pf U rd s = (s', es, r)"
  shows "r = Inr () \<and> filter is_Send es = [] \<and>
     wsClients s' = wsClients s \<and> wsClientMap s' = wsClientMap s \<and>
     inherited_sendMessages s' = inherited_sendMessages s \<and>
     (event rd \<noteq> Some ''initiate'' \<longrightarrow> s' = s)"
proof (cases "event rd = Some ''initiate''")
  case True
  obtain s1 es1 r1 where i: "initializeWhatsAppClient_start pf U s = (s1, es1, r1)"
    by (cases "initializeWhatsAppClient_start pf U s") auto
  from assms True i have "s' = s1" "r = r1"
    "es = Log DEBUG ''waLogic'' ''handleClientRequest'' [S ''Received request: '', R rd] # es1"
    by (auto simp: handleClientRequest_start_def prog_defs)
  with initializeWhatsAppClient_start_result[OF i] True show ?thesis
    by (auto split: client_ref.splits)
next
  case False
  obtain s1 es1 r1 where g: "getConnectedClient_start U s = (s1, es1, r1)"
    by (cases "getConnectedClient_start U s") auto
  from getConnectedClient_start_result[OF g]
  have f: "r1 = Inr ()" "s1 = s" "filter is_Send es1 = []" by auto
  from assms False g f show ?thesis
    by (auto simp: handleClientRequest_start_def prog_defs split: if_splits)
qed

lemma waClients_get_cong:
  "waClients t = waClients s \<Longrightarrow> inherited_sendMessages t = inherited_sendMessages s \<Longrightarrow>
   waClients_get t U = waClients_get s U"
  by (simp only: waClients_get_def)

lemma handle_initiate:
  assumes "user_id d = Some U" "U \<noteq> []" "event d = Some ''initiate''"
  shows "handleIncomingMessage pf w (Parsed d) s =
     (case initializeWhatsAppClient_start pf U (ensure_subscription w U (ensure_client_map w s)) of
        (s', es, r) \<Rightarrow>
          (s',
           [Log INFO ''waWSserver'' ''handleIncomingMessage''
              [S ''Client '', W w, S '' mapped to userId '', S U],
            Dispatch U (no_fields\<lparr>event := Some ''initiate''\<rparr>),
            Log DEBUG ''waLogic'' ''handleClientRequest''
              [S ''Received request: '', R (no_fields\<lparr>event := Some ''initiate''\<rparr>)]] @ es,
           Inr ()))"
proof -
  let ?t = "ensure_subscription w U (ensure_client_map w s)"
  obtain s1 es1 r1 where i: "initializeWhatsAppClient_start pf U ?t = (s1, es1, r1)"
    by (cases "initializeWhatsAppClient_start pf U ?t") auto
  from initializeWhatsAppClient_start_result[OF i] have r1: "r1 = Inr ()" by simp
  show ?thesis
    using assms
    by (simp add: handleIncomingMessage_def handle_body_def JSON_parse_def switch_event_def
        call_handleClientRequest_def handleClientRequest_start_def no_fields_def
        truthy_def prog_defs i r1)
qed

lemma initiate_state:
  assumes "user_id d = Some U" "U \<noteq> []" "event d = Some ''initiate''"
  shows "fst (handleIncomingMessage pf w (Parsed d) s) =
     (case waClients_get s U of
        Client c \<Rightarrow> ensure_subscription w U (ensure_client_map w s)
      | _ \<Rightarrow> (ensure_subscription w U (ensure_client_map w s))
               \<lparr>waClients := (waClients s)(U \<mapsto> new_Client pf U)\<rparr>)"
    and "snd (snd (handleIncomingMessage pf w (Parsed d) s)) = Inr ()"
proof -
  let ?t = "ensure_subscription w U (ensure_client_map w s)"
  have wa: "waClients ?t = waClients s" "inherited_sendMessages ?t = inherited_sendMessages s"
    by (auto simp: ensure_subscription_def ensure_client_map_def split: option.splits)
  then have get: "waClients_get ?t U = waClients_get s U"
    by (rule waClients_get_cong)
  obtain s1 es1 r1 where i: "initializeWhatsAppClient_start pf U ?t = (s1, es1, r1)"
    by (cases "initializeWhatsAppClient_start pf U ?t") auto
  from initializeWhatsAppClient_start_result[OF i] get wa
  have "s1 = (case waClients_get s U of
        Client c \<Rightarrow> ?t
      | _ \<Rightarrow> ?t\<lparr>waClients := (waClients s)(U \<mapsto> new_Client pf U)\<rparr>)"
    by (simp split: client_ref.splits)
  then show "fst (handleIncomingMessage pf w (Parsed d) s) =
     (case waClients_get s U of
        Client c \<Rightarrow> ?t
      | _ \<Rightarrow> ?t\<lparr>waClients := (waClients s)(U \<mapsto> new_Client pf U)\<rparr>)"
    by (simp add: handle_initiate[OF assms] i)
  show "snd (snd (handleIncomingMessage pf w (Parsed d) s)) = Inr ()"
    by (simp add: handle_initiate[OF assms] i)
qed

lemma userIds_get_own:
  "map_of (userIds cm) U = Some sub \<Longrightarrow> userIds_get s cm U = Own sub"
  by (simp add: userIds_get_def)

lemma inherited_value_cong:
  "inherited_sendMessages t = inherited_sendMessages s \<Longrightarrow>
   inherited_value t U = inherited_value s U"
  by (simp only: inherited_value_def)

lemma userIds_get_cong:
  "inherited_sendMessages t = inherited_sendMessages s \<Longrightarrow>
   userIds_get t cm U = userIds_get s cm U"
  by (simp only: userIds_get_def inherited_value_cong[of t s])

lemma userIds_get_waClients [simp]:
  "userIds_get (s\<lparr>waClients := X\<rparr>) cm U = userIds_get s cm U"
  by (rule userIds_get_cong) simp

lemma userIds_get_wsClientMap [simp]:
  "userIds_get (s\<lparr>wsClientMap := X\<rparr>) cm U = userIds_get s cm U"
  by (rule userIds_get_cong) simp

lemma ensure_client_map_registered:
  "map_of (wsClientMap s) w = Some cm \<Longrightarrow> ensure_client_map w s = s"
  by (simp add: ensure_client_map_def)

lemma ensure_client_map_new:
  "map_of (wsClientMap s) w = None \<Longrightarrow>
   map_of (wsClientMap (ensure_client_map w s)) w = Some \<lparr>userIds = []\<rparr>"
  by (simp add: ensure_client_map_def update_conv')

lemma ensure_subscription_truthy:
  "map_of (wsClientMap s) w = Some cm \<Longrightarrow> truthy_property (userIds_get s cm U) \<Longrightarrow>
   ensure_subscription w U s = s"
  by (simp add: ensure_subscription_def)

lemma ensure_subscription_new:
  "map_of (wsClientMap s) w = Some cm \<Longrightarrow> \<not> truthy_property (userIds_get s cm U) \<Longrightarrow>
   ensure_subscription w U s =
     s\<lparr>wsClientMap :=
         AList.update w
           (cm\<lparr>userIds := AList.update U \<lparr>sendMessages = False\<rparr> (userIds cm)\<rparr>)
           (wsClientMap s)\<rparr>"
  by (simp add: ensure_subscription_def)

lemma ensure_subscription_twice:
  "ensure_subscription w U (ensure_subscription w U s) = ensure_subscription w U s"
proof (cases "map_of (wsClientMap s) w")
  case None
  then show ?thesis by (simp add: ensure_subscription_def)
next
  case (Some cm)
  show ?thesis
  proof (cases "truthy_property (userIds_get s cm U)")
    case True
    with Some show ?thesis by (simp add: ensure_subscription_truthy)
  next
    case False
    let ?cm = "cm\<lparr>userIds := AList.update U \<lparr>sendMessages = False\<rparr> (userIds cm)\<rparr>"
    let ?t = "s\<lparr>wsClientMap := AList.update w ?cm (wsClientMap s)\<rparr>"
    have t: "ensure_subscription w U s = ?t"
      by (rule ensure_subscription_new[OF Some False])
    have reg: "map_of (wsClientMap ?t) w = Some ?cm"
      by (simp add: update_conv')
    have "userIds_get ?t ?cm U = Own \<lparr>sendMessages = False\<rparr>"
      by (rule userIds_get_own) (simp add: update_conv')
    then have "truthy_property (userIds_get ?t ?cm U)" by simp
    from ensure_subscription_truthy[OF reg this] show ?thesis
      unfolding t .
  qed
qed

lemma ensure_subscription_keeps_key:
  "map_of (wsClientMap s) w = Some cm \<Longrightarrow>
   \<exists>cm'. map_of (wsClientMap (ensure_subscription w U s)) w = Some cm'"
  by (simp add: ensure_subscription_def update_conv')

lemma ensure_client_map_key: "\<exists>cm. map_of (wsClientMap (ensure_client_map w s)) w = Some cm"
  by (cases "map_of (wsClientMap s) w") (simp_all add: ensure_client_map_def update_conv')

lemma ensure_subscription_idem:
  "ensure_subscription w U (ensure_client_map w (ensure_subscription w U (ensure_client_map w s)))
     = ensure_subscription w U (ensure_client_map w s)"
proof -
  obtain cm where "map_of (wsClientMap (ensure_client_map w s)) w = Some cm"
    using ensure_client_map_key by blast
  then obtain cm' where
    "map_of (wsClientMap (ensure_subscription w U (ensure_client_map w s))) w = Some cm'"
    using ensure_subscription_keeps_key by blast
  then have "ensure_client_map w (ensure_subscription w U (ensure_client_map w s)) =
      ensure_subscription w U (ensure_client_map w s)"
    by (rule ensure_client_map_registered)
  then show ?thesis by (simp add: ensure_subscription_twice)
qed

lemma ensure_waClients:
  "ensure_subscription w U (ensure_client_map w (s\<lparr>waClients := X\<rparr>)) =
     (ensure_subscription w U (ensure_client_map w s))\<lparr>waClients := X\<rparr>"
proof -
  have a: "ensure_client_map w (s\<lparr>waClients := X\<rparr>) = (ensure_client_map w s)\<lparr>waClients := X\<rparr>"
    by (simp add: ensure_client_map_def)
  have b: "\<And>t. ensure_subscription w U (t\<lparr>waClients := X\<rparr>) =
      (ensure_subscription w U t)\<lparr>waClients := X\<rparr>"
    by (simp add: ensure_subscription_def split: option.splits)
  show ?thesis by (simp only: a b)
qed

lemma ensure_registry:
  "wsClients (ensure_subscription w U (ensure_client_map w s)) = wsClients s"
  "inherited_sendMessages (ensure_subscription w U (ensure_client_map w s)) =
     inherited_sendMessages s"
  "waClients (ensure_subscription w U (ensure_client_map w s)) = waClients s"
  by (simp_all add: ensure_subscription_def ensure_client_map_def split: option.splits)

lemma ensure_existing:
  assumes "map_of (wsClientMap s) w = Some cm" "map_of (userIds cm) U = Some sub"
  shows "ensure_subscription w U (ensure_client_map w s) = s"
  using assms
  by (simp add: ensure_client_map_registered ensure_subscription_truthy userIds_get_own)

lemma ensure_absent:
  assumes plain: "inherited_value s U = Undefined"
    and absent: "\<not> (\<exists>cm sub. map_of (wsClientMap s) w = Some cm \<and>
                     map_of (userIds cm) U = Some sub)"
  shows "\<exists>cm. map_of (wsClientMap (ensure_subscription w U (ensure_client_map w s))) w = Some cm \<and>
     map_of (userIds cm) U = Some \<lparr>sendMessages = False\<rparr>"
proof -
  let ?t = "ensure_client_map w s"
  obtain cm where cm: "map_of (wsClientMap ?t) w = Some cm"
    using ensure_client_map_key by blast
  have none: "map_of (userIds cm) U = None"
  proof (cases "map_of (wsClientMap s) w")
    case None
    from ensure_client_map_new[OF None] cm show ?thesis by simp
  next
    case (Some cm0)
    with cm have "cm = cm0" by (simp add: ensure_client_map_registered)
    with Some absent show ?thesis by (cases "map_of (userIds cm) U") auto
  qed
  have "inherited_value ?t U = inherited_value s U"
    by (rule inherited_value_cong) (simp add: ensure_client_map_def)
  with plain have inh: "inherited_value ?t U = Undefined" by simp
  have "userIds_get ?t cm U = Undefined"
    by (simp add: userIds_get_plain[OF inh] none)
  then have "\<not> truthy_property (userIds_get ?t cm U)" by simp
  from ensure_subscription_new[OF cm this] show ?thesis
    by (simp add: update_conv')
qed

lemma waClients_get_recorded:
  "waClients_get (s\<lparr>waClients := (waClients s)(U \<mapsto> c)\<rparr>) U = Client c"
  by (simp add: waClients_get_def)

lemma initiate_twice:
  assumes "user_id d = Some U" "U \<noteq> []" "event d = Some ''initiate''"
  shows "fst (handleIncomingMessage pf w (Parsed d) (fst (handleIncomingMessage pf w (Parsed d) s)))
           = fst (handleIncomingMessage pf w (Parsed d) s)"
proof -
  let ?e = "\<lambda>t. ensure_subscription w U (ensure_client_map w t)"
  show ?thesis
  proof (cases "\<exists>c. waClients_get s U = Client c")
    case True
    then obtain c where c: "waClients_get s U = Client c" by blast
    have s1: "fst (handleIncomingMessage pf w (Parsed d) s) = ?e s"
      by (simp add: initiate_state(1)[OF assms] c)
    have "waClients_get (?e s) U = waClients_get s U"
      by (rule waClients_get_cong) (simp_all add: ensure_registry)
    then have "fst (handleIncomingMessage pf w (Parsed d) (?e s)) = ?e (?e s)"
      by (simp add: initiate_state(1)[OF assms] c)
    then show ?thesis
      unfolding s1 by (simp add: ensure_subscription_idem)
  next
    case False
    let ?X = "(waClients s)(U \<mapsto> new_Client pf U)"
    have s1: "fst (handleIncomingMessage pf w (Parsed d) s) = (?e s)\<lparr>waClients := ?X\<rparr>"
      using False by (simp add: initiate_state(1)[OF assms] split: client_ref.splits)
    have rec: "(?e s)\<lparr>waClients := ?X\<rparr> =
        (?e s)\<lparr>waClients := (waClients (?e s))(U \<mapsto> new_Client pf U)\<rparr>"
      by (simp add: ensure_registry)
    have get: "waClients_get ((?e s)\<lparr>waClients := ?X\<rparr>) U = Client (new_Client pf U)"
      unfolding rec by (rule waClients_get_recorded)
    have "fst (handleIncomingMessage pf w (Parsed d) ((?e s)\<lparr>waClients := ?X\<rparr>)) =
        ?e ((?e s)\<lparr>waClients := ?X\<rparr>)"
      by (simp add: initiate_state(1)[OF assms] get)
    also have "\<dots> = (?e (?e s))\<lparr>waClients := ?X\<rparr>"
      by (rule ensure_waClients)
    also have "\<dots> = (?e s)\<lparr>waClients := ?X\<rparr>"
      by (simp add: ensure_subscription_idem)
    finally show ?thesis
      unfolding s1 .
  qed
qed

lemma initiate_registry:
  assumes "user_id d = Some U" "U \<noteq> []" "event d = Some ''initiate''"
  shows "wsClientMap (fst (handleIncomingMessage pf w (Parsed d) s)) =
           wsClientMap (ensure_subscription w U (ensure_client_map w s))"
    and "wsClients (fst (handleIncomingMessage pf w (Parsed d) s)) = wsClients s"
    and "inherited_sendMessages (fst (handleIncomingMessage pf w (Parsed d) s)) =
           inherited_sendMessages s"
  by (simp_all add: initiate_state(1)[OF assms] ensure_registry split: client_ref.splits)

text \<open>
  C9. An \<open>initiate\<close> frame for a user on a connection does not throw and leaves the
  sockets and the inherited flags alone. Handled a second time it leaves every table
  exactly as the first time left it. Where the pair was subscribed already, the first time
  changes nothing in the registry either (the stored flag included). Where it was not, and
  the user identifier is one under which an empty object inherits nothing, the
  subscription exists afterwards with \<open>sendMessages = false\<close>.

  For a user identifier that names a member of \<open>Object.prototype\<close> the guard
  \<open>!wsClientMap[wsid].userIds[userId]\<close> finds that member and nothing is created: after
  an \<open>initiate\<close> for \<open>toString\<close> the registry is what it was, with no subscription to
  \<open>toString\<close>, while a backend session for \<open>toString\<close> has been started.
\<close>

theorem initiate_subscribe_idempotent:
  "(user_id d = Some U \<and> U \<noteq> [] \<and> event d = Some ''initiate'' \<longrightarrow>
      fst (handleIncomingMessage pf w (Parsed d) (fst (handleIncomingMessage pf w (Parsed d) s)))
        = fst (handleIncomingMessage pf w (Parsed d) s)
      \<and> snd (snd (handleIncomingMessage pf w (Parsed d) s)) = Inr ()
      \<and> wsClients (fst (handleIncomingMessage pf w (Parsed d) s)) = wsClients s
      \<and> inherited_sendMessages (fst (handleIncomingMessage pf w (Parsed d) s)) =
          inherited_sendMessages s
      \<and> ((\<exists>cm sub. map_of (wsClientMap s) w = Some cm \<and> map_of (userIds cm) U = Some sub)
           \<longrightarrow> wsClientMap (fst (handleIncomingMessage pf w (Parsed d) s)) = wsClientMap s)
      \<and> (inherited_value s U = Undefined \<and>
          \<not> (\<exists>cm sub. map_of (wsClientMap s) w = Some cm \<and> map_of (userIds cm) U = Some sub)
           \<longrightarrow> (\<exists>cm. map_of (wsClientMap (fst (handleIncomingMessage pf w (Parsed d) s))) w
                        = Some cm \<and>
                      map_of (userIds cm) U = Some \<lparr>sendMessages = False\<rparr>)))
   \<and> map_of (wsClientMap example_globals) (WsId 1001 7) =
        Some \<lparr>userIds = [(''u1'', \<lparr>sendMessages = True\<rparr>)]\<rparr>
   \<and> wsClientMap
        (fst (handleIncomingMessage example_platform (WsId 1001 7)
                (Parsed (no_fields\<lparr>user_id := Some ''toString'', event := Some ''initiate''\<rparr>))
                example_globals)) = wsClientMap example_globals
   \<and> waClients
        (fst (handleIncomingMessage example_platform (WsId 1001 7)
                (Parsed (no_fields\<lparr>user_id := Some ''toString'', event := Some ''initiate''\<rparr>))
                example_globals)) ''toString'' = Some example_client"
proof (intro conjI impI)
  assume a: "user_id d = Some U \<and> U \<noteq> [] \<and> event d = Some ''initiate''"
  then show "fst (handleIncomingMessage pf w (Parsed d)
                   (fst (handleIncomingMessage pf w (Parsed d) s)))
        = fst (handleIncomingMessage pf w (Parsed d) s)"
    by (simp add: initiate_twice)
  from a show "snd (snd (handleIncomingMessage pf w (Parsed d) s)) = Inr ()"
    by (simp add: initiate_state(2))
  from a show "wsClients (fst (handleIncomingMessage pf w (Parsed d) s)) = wsClients s"
    by (simp add: initiate_registry(2))
  from a show "inherited_sendMessages (fst (handleIncomingMessage pf w (Parsed d) s)) =
          inherited_sendMessages s"
    by (simp add: initiate_registry(3))
next
  assume a: "user_id d = Some U \<and> U \<noteq> [] \<and> event d = Some ''initiate''"
  assume "\<exists>cm sub. map_of (wsClientMap s) w = Some cm \<and> map_of (userIds cm) U = Some sub"
  then have "ensure_subscription w U (ensure_client_map w s) = s"
    using ensure_existing by blast
  with a show "wsClientMap (fst (handleIncomingMessage pf w (Parsed d) s)) = wsClientMap s"
    by (simp add: initiate_registry(1))
next
  assume a: "user_id d = Some U \<and> U \<noteq> [] \<and> event d = Some ''initiate''"
  assume b: "inherited_value s U = Undefined \<and>
          \<not> (\<exists>cm sub. map_of (wsClientMap s) w = Some cm \<and> map_of (userIds cm) U = Some sub)"
  then have "\<exists>cm. map_of (wsClientMap (ensure_subscription w U (ensure_client_map w s))) w
                 = Some cm \<and> map_of (userIds cm) U = Some \<lparr>sendMessages = False\<rparr>"
    using ensure_absent by blast
  with a show "\<exists>cm. map_of (wsClientMap (fst (handleIncomingMessage pf w (Parsed d) s))) w
                        = Some cm \<and>
                      map_of (userIds cm) U = Some \<lparr>sendMessages = False\<rparr>"
    by (simp add: initiate_registry(1))
next
  show "map_of (wsClientMap example_globals) (WsId 1001 7) =
        Some \<lparr>userIds = [(''u1'', \<lparr>sendMessages = True\<rparr>)]\<rparr>"
    by (simp add: example_globals_def)
next
  have f: "user_id (no_fields\<lparr>user_id := Some ''toString'', event := Some ''initiate''\<rparr>)
             = Some ''toString''"
    "''toString'' \<noteq> []"
    "event (no_fields\<lparr>user_id := Some ''toString'', event := Some ''initiate''\<rparr>)
       = Some ''initiate''"
    by (simp_all add: no_fields_def)
  have cm: "ensure_client_map (WsId 1001 7) example_globals = example_globals"
    by (rule ensure_client_map_registered) (simp add: example_globals_def)
  have "userIds_get example_globals \<lparr>userIds = [(''u1'', \<lparr>sendMessages = True\<rparr>)]\<rparr> ''toString''
          = Member ''toString''"
    by (simp add: userIds_get_def inherited_value_def prototype_keys_def)
  then have "truthy_property
      (userIds_get example_globals \<lparr>userIds = [(''u1'', \<lparr>sendMessages = True\<rparr>)]\<rparr> ''toString'')"
    by simp
  then have e: "ensure_subscription (WsId 1001 7) ''toString'' example_globals = example_globals"
    by (rule ensure_subscription_truthy[rotated]) (simp add: example_globals_def)
  show "wsClientMap
        (fst (handleIncomingMessage example_platform (WsId 1001 7)
                (Parsed (no_fields\<lparr>user_id := Some ''toString'', event := Some ''initiate''\<rparr>))
                example_globals)) = wsClientMap example_globals"
    by (simp add: initiate_registry(1)[OF f] cm e)
  have get: "waClients_get example_globals ''toString'' = NotAClient"
    by (simp add: waClients_get_def prototype_keys_def example_globals_def)
  show "waClients
        (fst (handleIncomingMessage example_platform (WsId 1001 7)
                (Parsed (no_fields\<lparr>user_id := Some ''toString'', event := Some ''initiate''\<rparr>))
                example_globals)) ''toString'' = Some example_client"
    by (simp add: initiate_state(1)[OF f] get example_platform_def)
qed

theorem initiate_subscribe_idempotent_witness:
  "fst (handleIncomingMessage example_platform (WsId 1001 7)
          (Parsed (no_fields\<lparr>user_id := Some ''u3'', event := Some ''initiate''\<rparr>))
          (fst (handleIncomingMessage example_platform (WsId 1001 7)
                  (Parsed (no_fields\<lparr>user_id := Some ''u3'', event := Some ''initiate''\<rparr>))
                  example_globals)))
     = fst (handleIncomingMessage example_platform (WsId 1001 7)
              (Parsed (no_fields\<lparr>user_id := Some ''u3'', event := Some ''initiate''\<rparr>))
              example_globals)
   \<and> (\<exists>cm. map_of (wsClientMap
                (fst (handleIncomingMessage example_platform (WsId 1001 7)
                   (Parsed (no_fields\<lparr>user_id := Some ''u3'', event := Some ''initiate''\<rparr>))
                   example_globals))) (WsId 1001 7) = Some cm \<and>
           map_of (userIds cm) ''u3'' = Some \<lparr>sendMessages = False\<rparr>)
   \<and> wsClientMap (fst (handleIncomingMessage example_platform (WsId 1002 8)
            (Parsed (no_fields\<lparr>user_id := Some ''u2'', event := Some ''initiate''\<rparr>))
            example_globals)) = wsClientMap example_globals"
proof -
  have sub: "\<exists>cm sub. map_of (wsClientMap example_globals) (WsId 1002 8) = Some cm \<and>
      map_of (userIds cm) ''u2'' = Some sub"
    by (simp add: example_globals_def)
  have plain: "inherited_value example_globals ''u3'' = Undefined"
    by (simp add: inherited_value_def prototype_keys_def)
  have nosub: "\<not> (\<exists>cm sub. map_of (wsClientMap example_globals) (WsId 1001 7) = Some cm \<and>
      map_of (userIds cm) ''u3'' = Some sub)"
    by (simp add: example_globals_def)
  from initiate_subscribe_idempotent[where U = "''u3''" and w = "WsId 1001 7"
      and s = example_globals and pf = example_platform
      and d = "no_fields\<lparr>user_id := Some ''u3'', event := Some ''initiate''\<rparr>"] plain nosub
  have one: "fst (handleIncomingMessage example_platform (WsId 1001 7)
          (Parsed (no_fields\<lparr>user_id := Some ''u3'', event := Some ''initiate''\<rparr>))
          (fst (handleIncomingMessage example_platform (WsId 1001 7)
                  (Parsed (no_fields\<lparr>user_id := Some ''u3'', event := Some ''initiate''\<rparr>))
                  example_globals)))
     = fst (handleIncomingMessage example_platform (WsId 1001 7)
              (Parsed (no_fields\<lparr>user_id := Some ''u3'', event := Some ''initiate''\<rparr>))
              example_globals)"
    and created: "\<exists>cm. map_of (wsClientMap
                (fst (handleIncomingMessage example_platform (WsId 1001 7)
                   (Parsed (no_fields\<lparr>user_id := Some ''u3'', event := Some ''initiate''\<rparr>))
                   example_globals))) (WsId 1001 7) = Some cm \<and>
           map_of (userIds cm) ''u3'' = Some \<lparr>sendMessages = False\<rparr>"
    by (simp_all add: no_fields_def)
  from initiate_subscribe_idempotent[where U = "''u2''" and w = "WsId 1002 8"
      and s = example_globals and pf = example_platform
      and d = "no_fields\<lparr>user_id := Some ''u2'', event := Some ''initiate''\<rparr>"] sub
  have two: "wsClientMap (fst (handleIncomingMessage example_platform (WsId 1002 8)
            (Parsed (no_fields\<lparr>user_id := Some ''u2'', event := Some ''initiate''\<rparr>))
            example_globals)) = wsClientMap example_globals"
    by (simp add: no_fields_def)
  from one created two show ?thesis by simp
qed

subsection \<open>Requests that fail in the handler\<close>

lemma handleIncomingMessage_caught:
  assumes "handle_body pf w fr s = (s, [], Inl e)"
  shows "handleIncomingMessage pf w fr s =
           (s, [Log ERROR ''waWSserver'' ''handleIncomingMessage''
                  [S ''Failed to process message: '', S (message_of e)],
                Log ERROR ''waWSserver'' ''handleIncomingMessage''
                  [S ''Cannot send error response - user_id is undefined.'']], Inr ())"
  by (simp add: handleIncomingMessage_def try_catch_def assms handle_catch_def
      data_in_catch_block_def seq_def logError_def emit_def)

lemma set_sendMessages_absent:
  assumes "inherited_value s U = Undefined"
    and "\<not> (\<exists>cm sub. map_of (wsClientMap s) w = Some cm \<and> map_of (userIds cm) U = Some sub)"
  shows "\<exists>m. set_sendMessages w U b s = (s, [], Inl (TypeError m))"
proof (cases "map_of (wsClientMap s) w")
  case None
  then show ?thesis by (simp add: set_sendMessages_def throw_def)
next
  case (Some cm)
  with assms(2) have "map_of (userIds cm) U = None"
    by (cases "map_of (userIds cm) U") auto
  then have "userIds_get s cm U = Undefined"
    by (simp add: userIds_get_plain[OF assms(1)])
  with Some show ?thesis by (simp add: set_sendMessages_def throw_def)
qed

lemma handle_body_get_messages:
  assumes "user_id d = Some U" and "U \<noteq> []" and "event d = Some ''get_messages''"
  shows "handle_body pf w (Parsed d) s =
     seq (set_sendMessages w U True)
       (\<lambda>_. logInfo ''waWSserver'' ''handleIncomingMessage''
               [S ''Client '', W w, S '' enabled message reception for userId '', S U]) s"
  by (simp add: handle_body_def JSON_parse_def switch_event_def truthy_def assms seq_def ret_def)

lemma handle_body_stop_messages:
  assumes "user_id d = Some U" and "U \<noteq> []" and "event d = Some ''stop_messages''"
  shows "handle_body pf w (Parsed d) s =
     seq (set_sendMessages w U False)
       (\<lambda>_. logInfo ''waWSserver'' ''handleIncomingMessage''
               [S ''Client '', W w, S '' disabled message reception for userId '', S U]) s"
  by (simp add: handle_body_def JSON_parse_def switch_event_def truthy_def assms seq_def ret_def)

lemma handle_body_toggle_throws:
  assumes "user_id d = Some U" and "U \<noteq> []"
    and "event d = Some ''get_messages'' \<or> event d = Some ''stop_messages''"
    and "inherited_value s U = Undefined"
    and "\<not> (\<exists>cm sub. map_of (wsClientMap s) w = Some cm \<and> map_of (userIds cm) U = Some sub)"
  shows "\<exists>m. handle_body pf w (Parsed d) s = (s, [], Inl (TypeError m))"
proof -
  from assms(3) show ?thesis
  proof
    assume ev: "event d = Some ''get_messages''"
    obtain m where "set_sendMessages w U True s = (s, [], Inl (TypeError m))"
      using set_sendMessages_absent[OF assms(4,5)] by blast
    then show ?thesis
      by (simp add: handle_body_get_messages[OF assms(1,2) ev] seq_def)
  next
    assume ev: "event d = Some ''stop_messages''"
    obtain m where "set_sendMessages w U False s = (s, [], Inl (TypeError m))"
      using set_sendMessages_absent[OF assms(4,5)] by blast
    then show ?thesis
      by (simp add: handle_body_stop_messages[OF assms(1,2) ev] seq_def)
  qed
qed

text \<open>
  C10. A \<open>get_messages\<close> or \<open>stop_messages\<close> frame for a pair that has no subscription,
  the user identifier being one under which an empty object inherits nothing: the \<open>try\<close>
  block throws a TypeError before it has changed or logged anything, the handler catches
  it, logs twice at level ERROR and returns. The tables afterwards are the tables before:
  the connection is still registered, no subscription was created and no flag was changed.
  Nothing is sent.

  For a user identifier that names a member of \<open>Object.prototype\<close> nothing throws: a
  \<open>get_messages\<close> frame for \<open>constructor\<close>, to which no connection is subscribed,
  writes the flag onto the inherited member and logs at level INFO. From then on a content
  message for \<open>constructor\<close> is written to every open connection.
\<close>

theorem toggle_without_subscription:
  "(user_id d = Some U \<and> U \<noteq> [] \<and>
    (event d = Some ''get_messages'' \<or> event d = Some ''stop_messages'') \<and>
    inherited_value s U = Undefined \<and>
    \<not> (\<exists>cm sub. map_of (wsClientMap s) w = Some cm \<and> map_of (userIds cm) U = Some sub) \<longrightarrow>
      (\<exists>m. handle_body pf w (Parsed d) s = (s, [], Inl (TypeError m)))
      \<and> (\<exists>m. handleIncomingMessage pf w (Parsed d) s =
            (s, [Log ERROR ''waWSserver'' ''handleIncomingMessage''
                   [S ''Failed to process message: '', S m],
                 Log ERROR ''waWSserver'' ''handleIncomingMessage''
                   [S ''Cannot send error response - user_id is undefined.'']], Inr ())))
   \<and> handleIncomingMessage example_platform (WsId 1001 7)
        (Parsed (no_fields\<lparr>user_id := Some ''constructor'', event := Some ''get_messages''\<rparr>))
        example_globals =
       (example_globals\<lparr>inherited_sendMessages := [(''constructor'', True)]\<rparr>,
        [Log INFO ''waWSserver'' ''handleIncomingMessage''
           [S ''Client '', W (WsId 1001 7), S '' enabled message reception for userId '',
            S ''constructor'']],
        Inr ())
   \<and> filter is_Send
        (fst (snd (sendMessageToClients ''constructor'' [(''event'', JStr ''message'')] None
                     (example_globals\<lparr>inherited_sendMessages := [(''constructor'', True)]\<rparr>)))) =
       [Send (WsId 1001 7) [(''event'', JStr ''message'')],
        Send (WsId 1002 8) [(''event'', JStr ''message'')]]"
proof (intro conjI impI)
  assume a: "user_id d = Some U \<and> U \<noteq> [] \<and>
    (event d = Some ''get_messages'' \<or> event d = Some ''stop_messages'') \<and>
    inherited_value s U = Undefined \<and>
    \<not> (\<exists>cm sub. map_of (wsClientMap s) w = Some cm \<and> map_of (userIds cm) U = Some sub)"
  then obtain m where thrown: "handle_body pf w (Parsed d) s = (s, [], Inl (TypeError m))"
    using handle_body_toggle_throws[of d U s w pf] by blast
  then show "\<exists>m. handle_body pf w (Parsed d) s = (s, [], Inl (TypeError m))"
    by blast
  from handleIncomingMessage_caught[OF thrown]
  show "\<exists>m. handleIncomingMessage pf w (Parsed d) s =
            (s, [Log ERROR ''waWSserver'' ''handleIncomingMessage''
                   [S ''Failed to process message: '', S m],
                 Log ERROR ''waWSserver'' ''handleIncomingMessage''
                   [S ''Cannot send error response - user_id is undefined.'']], Inr ())"
    by auto
next
  have f: "user_id (no_fields\<lparr>user_id := Some ''constructor'', event := Some ''get_messages''\<rparr>)
             = Some ''constructor''"
    "''constructor'' \<noteq> []"
    "event (no_fields\<lparr>user_id := Some ''constructor'', event := Some ''get_messages''\<rparr>)
       = Some ''get_messages''"
    by (simp_all add: no_fields_def)
  have get: "userIds_get example_globals \<lparr>userIds = [(''u1'', \<lparr>sendMessages = True\<rparr>)]\<rparr>
               ''constructor'' = Member ''constructor''"
    by (simp add: userIds_get_def inherited_value_def prototype_keys_def)
  have reg: "map_of (wsClientMap example_globals) (WsId 1001 7) =
      Some \<lparr>userIds = [(''u1'', \<lparr>sendMessages = True\<rparr>)]\<rparr>"
    by (simp add: example_globals_def)
  have inh: "inherited_sendMessages example_globals = []"
    by (simp add: example_globals_def)
  have set: "set_sendMessages (WsId 1001 7) ''constructor'' True example_globals =
      (example_globals\<lparr>inherited_sendMessages := [(''constructor'', True)]\<rparr>, [], Inr ())"
    by (simp add: set_sendMessages_def reg get inh)
  have body: "handle_body example_platform (WsId 1001 7)
        (Parsed (no_fields\<lparr>user_id := Some ''constructor'', event := Some ''get_messages''\<rparr>))
        example_globals =
       (example_globals\<lparr>inherited_sendMessages := [(''constructor'', True)]\<rparr>,
        [Log INFO ''waWSserver'' ''handleIncomingMessage''
           [S ''Client '', W (WsId 1001 7), S '' enabled message reception for userId '',
            S ''constructor'']],
        Inr ())"
    by (simp add: handle_body_get_messages[OF f] seq_def set logInfo_def emit_def)
  show "handleIncomingMessage example_platform (WsId 1001 7)
        (Parsed (no_fields\<lparr>user_id := Some ''constructor'', event := Some ''get_messages''\<rparr>))
        example_globals =
       (example_globals\<lparr>inherited_sendMessages := [(''constructor'', True)]\<rparr>,
        [Log INFO ''waWSserver'' ''handleIncomingMessage''
           [S ''Client '', W (WsId 1001 7), S '' enabled message reception for userId '',
            S ''constructor'']],
        Inr ())"
    by (simp add: handleIncomingMessage_def try_catch_def body)
next
  let ?s = "example_globals\<lparr>inherited_sendMessages := [(''constructor'', True)]\<rparr>"
  have tc: "targetClients ?s ''constructor'' None = [WsId 1001 7, WsId 1002 8, WsId 1003 9]"
    by (simp add: targetClients_def subscribed_def userIds_get_def inherited_value_def
        prototype_keys_def example_globals_def)
  have rd: "\<And>c. c \<in> set [WsId 1001 7, WsId 1002 8, WsId 1003 9] \<Longrightarrow>
      read_sendMessages ?s ''constructor'' c = Inr True"
    by (auto simp: read_sendMessages_def userIds_get_def inherited_value_def
        prototype_keys_def member_sendMessages_def example_globals_def)
  have ws: "wsClients ?s = [(WsId 1001 7, OPEN), (WsId 1002 8, OPEN), (WsId 1003 9, CLOSED)]"
    by (simp add: example_globals_def)
  obtain s' es r where
    run: "sendMessageToClients ''constructor'' [(''event'', JStr ''message'')] None ?s = (s', es, r)"
    by (cases "sendMessageToClients ''constructor'' [(''event'', JStr ''message'')] None ?s") auto
  have "filter is_Send es =
      map (\<lambda>c. Send c (JSON_stringify [(''event'', JStr ''message'')]))
        (filter (\<lambda>c. map_of (wsClients ?s) c = Some OPEN)
           (filter (\<lambda>c. read_sendMessages ?s ''constructor'' c = Inr True)
              (targetClients ?s ''constructor'' None)))"
    using sendMessageToClients_result[OF run] by (simp add: field_def)
  also have "\<dots> = [Send (WsId 1001 7) [(''event'', JStr ''message'')],
        Send (WsId 1002 8) [(''event'', JStr ''message'')]]"
    unfolding tc ws using rd by (simp add: JSON_stringify_def)
  finally show "filter is_Send
        (fst (snd (sendMessageToClients ''constructor'' [(''event'', JStr ''message'')] None ?s))) =
       [Send (WsId 1001 7) [(''event'', JStr ''message'')],
        Send (WsId 1002 8) [(''event'', JStr ''message'')]]"
    by (simp add: run)
qed

theorem toggle_without_subscription_witness:
  "\<exists>m. handleIncomingMessage example_platform (WsId 1001 7)
          (Parsed (no_fields\<lparr>user_id := Some ''u2'', event := Some ''stop_messages''\<rparr>))
          example_globals =
       (example_globals,
        [Log ERROR ''waWSserver'' ''handleIncomingMessage''
           [S ''Failed to process message: '', S m],
         Log ERROR ''waWSserver'' ''handleIncomingMessage''
           [S ''Cannot send error response - user_id is undefined.'']], Inr ())"
proof -
  have absent: "\<not> (\<exists>cm sub. map_of (wsClientMap example_globals) (WsId 1001 7) = Some cm \<and>
      map_of (userIds cm) ''u2'' = Some sub)"
    by (simp add: example_globals_def)
  have plain: "inherited_value example_globals ''u2'' = Undefined"
    by (simp add: inherited_value_def prototype_keys_def)
  have fields: "user_id (no_fields\<lparr>user_id := Some ''u2'', event := Some ''stop_messages''\<rparr>)
        = Some ''u2''"
    "event (no_fields\<lparr>user_id := Some ''u2'', event := Some ''stop_messages''\<rparr>)
        = Some ''get_messages'' \<or>
     event (no_fields\<lparr>user_id := Some ''u2'', event := Some ''stop_messages''\<rparr>)
        = Some ''stop_messages''"
    by (simp_all add: no_fields_def)
  have nonempty: "''u2'' \<noteq> []" by simp
  from toggle_without_subscription[where pf = example_platform and w = "WsId 1001 7"
      and s = example_globals and U = "''u2''"
      and d = "no_fields\<lparr>user_id := Some ''u2'', event := Some ''stop_messages''\<rparr>"]
    fields nonempty absent plain
  show ?thesis by blast
qed

lemma handle_body_malformed:
  assumes "fr = Unparseable m \<or> fr = ParsedNull \<or>
     (\<exists>d. fr = Parsed d \<and> (\<not> truthy (user_id d) \<or> \<not> truthy (event d) \<or>
        (event d = Some ''get_group_messages'' \<and> \<not> truthy (group_id d))))"
  shows "\<exists>e. handle_body pf w fr s = (s, [], Inl e)"
proof -
  consider (a) "fr = Unparseable m" | (b) "fr = ParsedNull"
    | (c) d where "fr = Parsed d" "\<not> truthy (user_id d) \<or> \<not> truthy (event d)"
    | (d) d where "fr = Parsed d" "truthy (user_id d)" "event d = Some ''get_group_messages''"
        "\<not> truthy (group_id d)"
    using assms by (auto simp: truthy_def)
  then show ?thesis
  proof cases
    case a
    then show ?thesis by (simp add: handle_body_def JSON_parse_def seq_def throw_def)
  next
    case b
    then show ?thesis by (simp add: handle_body_def JSON_parse_def seq_def throw_def)
  next
    case c
    then show ?thesis
      by (simp add: handle_body_def JSON_parse_def seq_def throw_def ret_def)
  next
    case d
    then show ?thesis
      by (simp add: handle_body_def JSON_parse_def switch_event_def seq_def throw_def ret_def
          truthy_def)
  qed
qed

text \<open>
  C2. A malformed frame (a body that does not parse, a missing user identifier or event
  tag, a \<open>get_group_messages\<close> request without \<open>group_id\<close>) fails alone: the handler
  returns and the tables, so the registration of the connection, are unchanged. But it
  never relays an \<open>error\<close> event, not even when the frame names its user: the trace holds
  two log entries and no \<open>Send\<close>.
\<close>

theorem malformed_frame_not_relayed:
  assumes "fr = Unparseable m \<or> fr = ParsedNull \<or>
     (\<exists>d. fr = Parsed d \<and> (\<not> truthy (user_id d) \<or> \<not> truthy (event d) \<or>
        (event d = Some ''get_group_messages'' \<and> \<not> truthy (group_id d))))"
  shows "\<exists>e. handleIncomingMessage pf w fr s =
           (s, [Log ERROR ''waWSserver'' ''handleIncomingMessage''
                  [S ''Failed to process message: '', S e],
                Log ERROR ''waWSserver'' ''handleIncomingMessage''
                  [S ''Cannot send error response - user_id is undefined.'']], Inr ())"
proof -
  obtain e where "handle_body pf w fr s = (s, [], Inl e)"
    using handle_body_malformed[OF assms] by blast
  from handleIncomingMessage_caught[OF this] show ?thesis by blast
qed

theorem malformed_frame_not_relayed_witness:
  "\<exists>e. handleIncomingMessage example_platform (WsId 1001 7)
          (Parsed (no_fields\<lparr>user_id := Some ''u1''\<rparr>)) example_globals =
       (example_globals,
        [Log ERROR ''waWSserver'' ''handleIncomingMessage''
           [S ''Failed to process message: '', S e],
         Log ERROR ''waWSserver'' ''handleIncomingMessage''
           [S ''Cannot send error response - user_id is undefined.'']], Inr ())"
proof -
  have bad: "Parsed (no_fields\<lparr>user_id := Some ''u1''\<rparr>) = Unparseable [] \<or>
     Parsed (no_fields\<lparr>user_id := Some ''u1''\<rparr>) = ParsedNull \<or>
     (\<exists>d. Parsed (no_fields\<lparr>user_id := Some ''u1''\<rparr>) = Parsed d \<and>
        (\<not> truthy (user_id d) \<or> \<not> truthy (event d) \<or>
         (event d = Some ''get_group_messages'' \<and> \<not> truthy (group_id d))))"
    by (simp add: no_fields_def truthy_def)
  from malformed_frame_not_relayed[OF bad] show ?thesis .
qed


section \<open>Properties of the send path\<close>

lemma is_SendMessage_Backend: "is_SendMessage e \<Longrightarrow> is_Backend e"
  by (cases e rule: is_SendMessage.cases) simp_all

lemma no_Backend_no_SendMessage: "filter is_Backend es = [] \<Longrightarrow> filter is_SendMessage es = []"
  by (auto simp: filter_empty_conv dest: is_SendMessage_Backend)

lemma relay_returns: "snd (snd (sendMessageToClients U msg None s)) = Inr ()"
  by (cases "sendMessageToClients U msg None s") (use sendMessageToClients_result in auto)

lemma relay_no_Backend: "filter is_Backend (fst (snd (sendMessageToClients U msg None s))) = []"
  by (cases "sendMessageToClients U msg None s") (use sendMessageToClients_result in auto)

lemma relay_keeps_waClients: "waClients (fst (sendMessageToClients U msg None s)) = waClients s"
  by (cases "sendMessageToClients U msg None s") (use sendMessageToClients_result in auto)

lemma relay_Sends:
  "field msg ''event'' \<noteq> JStr ''message'' \<Longrightarrow>
   filter is_Send (fst (snd (sendMessageToClients U msg None s))) =
     map (\<lambda>c. Send c (JSON_stringify msg))
       (filter (\<lambda>c. map_of (wsClients s) c = Some OPEN) (targetClients s U None))"
  by (cases "sendMessageToClients U msg None s") (use sendMessageToClients_result in auto)

text \<open>An entry of the session table is what the lookup gives, and the only client it gives.\<close>

lemma waClients_get_recorded_own: "waClients s U = Some c \<Longrightarrow> waClients_get s U = Client c"
  by (auto simp: waClients_get_def)



lemma getConnectedClient_ready:
  assumes "waClients s U = Some c" and "getState c = Inr ''CONNECTED''"
  shows "getConnectedClient U s = (s, [Backend U GetState], Inr (Some c))"
  using assms by (simp add: getConnectedClient_def waClients_get_recorded_own prog_defs)



subsection \<open>Recipients\<close>

lemma list_all_is_digit: "list_all is_digit r \<longleftrightarrow> set r \<subseteq> set ''0123456789''"
  unfolding list_all_iff is_digit_def by blast

lemma test_phone_iff:
  "test_phone rcpt \<longleftrightarrow> (\<exists>r. rcpt = Some r \<and> 10 \<le> length r \<and> set r \<subseteq> set ''0123456789'')"
proof (cases rcpt)
  case None
  then show ?thesis by (simp add: test_phone_def)
next
  case (Some r)
  then show ?thesis
    unfolding test_phone_def list_all_is_digit by (simp only: option.case option.inject ex_simps simp_thms)
qed

lemma UserSendMessage_ready:
  assumes "waClients s U = Some c" and "getState c = Inr ''CONNECTED''"
  shows "filter is_SendMessage (fst (snd (UserSendMessage U rcpt msg s))) =
           [Backend U (SendMessage (recipientId rcpt) msg)]"
proof (cases "sendMessage c (recipientId rcpt) msg")
  case None
  let ?m = "[(''event'', JStr ''message_sent''), (''userid'', JStr U),
             (''recipientId'', str_or_undefined (recipientId rcpt)),
             (''message'', str_or_undefined msg)]"
  obtain s1 es1 r1 where rel: "sendMessageToClients U ?m None s = (s1, es1, r1)"
    by (cases "sendMessageToClients U ?m None s") auto
  from sendMessageToClients_result[OF rel]
  have facts: "r1 = Inr ()" "filter is_Backend es1 = []"
    by simp_all
  have "fst (snd (UserSendMessage U rcpt msg s)) =
      [Backend U GetState,
       Log DEBUG ''waLogic'' ''UserSendMessage''
         [S ''Request to send from '', S U, S '' to '', V (str_or_undefined rcpt),
          S '' message: '', V (str_or_undefined msg)],
       Backend U (SendMessage (recipientId rcpt) msg),
       Log DEBUG ''waLogic'' ''UserSendMessage''
         [S ''Message sent to '', V (str_or_undefined (recipientId rcpt)),
          S '' by user '', S U]] @ es1"
    by (simp add: UserSendMessage_def UserSendMessage_resumed_def
        getConnectedClient_ready[OF assms] None rel facts(1) prog_defs)
  then show ?thesis
    using no_Backend_no_SendMessage[OF facts(2)] by simp
next
  case (Some e)
  let ?m = "[(''event'', JStr ''error''), (''userid'', JStr U),
             (''message'', JStr (message_of e))]"
  obtain s1 es1 r1 where rel: "sendMessageToClients U ?m None s = (s1, es1, r1)"
    by (cases "sendMessageToClients U ?m None s") auto
  from sendMessageToClients_result[OF rel]
  have facts: "r1 = Inr ()" "filter is_Backend es1 = []"
    by simp_all
  have "fst (snd (UserSendMessage U rcpt msg s)) =
      [Backend U GetState,
       Log DEBUG ''waLogic'' ''UserSendMessage''
         [S ''Request to send from '', S U, S '' to '', V (str_or_undefined rcpt),
          S '' message: '', V (str_or_undefined msg)],
       Backend U (SendMessage (recipientId rcpt) msg),
       Log ERROR ''waLogic'' ''UserSendMessage''
         [S ''Failed to send message from userId '', S U, S '': '', S (message_of e)]] @ es1"
    by (simp add: UserSendMessage_def UserSendMessage_resumed_def
        getConnectedClient_ready[OF assms] Some rel facts(1) prog_defs)
  then show ?thesis
    using no_Backend_no_SendMessage[OF facts(2)] by simp
qed

text \<open>
  C8. A recipient of ten or more ASCII digits and nothing else is a phone number. One that
  starts with 972 only gets \<open>@c.us\<close> appended; one that starts with 0 has that digit
  replaced by 972 and \<open>@c.us\<close> appended, so 0501234567 becomes 972501234567@c.us. Any
  other recipient, a group handle for one, is left as it is. With a ready session the
  backend's \<open>sendMessage\<close> is called exactly once, with the recipient so obtained.
\<close>

theorem recipient_canonicalization:
  "(test_phone rcpt \<longleftrightarrow> (\<exists>r. rcpt = Some r \<and> 10 \<le> length r \<and> set r \<subseteq> set ''0123456789''))
   \<and> (test_phone (Some r) \<and> prefix ''972'' r \<longrightarrow> recipientId (Some r) = Some (r @ ''@c.us''))
   \<and> (test_phone (Some (CHR ''0'' # r)) \<longrightarrow>
        recipientId (Some (CHR ''0'' # r)) = Some (''972'' @ r @ ''@c.us''))
   \<and> (\<not> test_phone rcpt \<longrightarrow> recipientId rcpt = rcpt)
   \<and> recipientId (Some ''0501234567'') = Some ''972501234567@c.us''
   \<and> (\<forall>c. waClients s U = Some c \<and> getState c = Inr ''CONNECTED'' \<longrightarrow>
        filter is_SendMessage (fst (snd (UserSendMessage U rcpt msg s))) =
          [Backend U (SendMessage (recipientId rcpt) msg)])"
proof (intro conjI allI impI)
  show "test_phone rcpt \<longleftrightarrow> (\<exists>r. rcpt = Some r \<and> 10 \<le> length r \<and> set r \<subseteq> set ''0123456789'')"
    by (rule test_phone_iff)
next
  assume "test_phone (Some r) \<and> prefix ''972'' r"
  then show "recipientId (Some r) = Some (r @ ''@c.us'')"
    by (simp add: recipientId_def convertPhoneNumberToWaId_def)
next
  assume "test_phone (Some (CHR ''0'' # r))"
  then show "recipientId (Some (CHR ''0'' # r)) = Some (''972'' @ r @ ''@c.us'')"
    by (simp add: recipientId_def convertPhoneNumberToWaId_def)
next
  assume "\<not> test_phone rcpt"
  then show "recipientId rcpt = rcpt"
    by (simp add: recipientId_def)
next
  show "recipientId (Some ''0501234567'') = Some ''972501234567@c.us''"
    by (simp add: recipientId_def convertPhoneNumberToWaId_def test_phone_def is_digit_def)
next
  fix c
  assume "waClients s U = Some c \<and> getState c = Inr ''CONNECTED''"
  then show "filter is_SendMessage (fst (snd (UserSendMessage U rcpt msg s))) =
          [Backend U (SendMessage (recipientId rcpt) msg)]"
    using UserSendMessage_ready by blast
qed

theorem recipient_canonicalization_witness:
  "recipientId (Some ''972501234567'') = Some ''972501234567@c.us''
   \<and> recipientId (Some ''0501234567'') = Some ''972501234567@c.us''
   \<and> recipientId (Some ''120363041234567890@g.us'') = Some ''120363041234567890@g.us''
   \<and> filter is_SendMessage
       (fst (snd (UserSendMessage ''u1'' (Some ''0501234567'') (Some ''hi'') example_globals))) =
     [Backend ''u1'' (SendMessage (Some ''972501234567@c.us'') (Some ''hi''))]"
proof -
  have p1: "test_phone (Some ''972501234567'') \<and> prefix ''972'' ''972501234567''"
    by (simp add: test_phone_def is_digit_def)
  have p2: "test_phone (Some (CHR ''0'' # ''501234567''))"
    by (simp add: test_phone_def is_digit_def)
  have p3: "\<not> test_phone (Some ''120363041234567890@g.us'')"
    by (simp add: test_phone_def is_digit_def)
  have p4: "waClients example_globals ''u1'' = Some example_client \<and>
      getState example_client = Inr ''CONNECTED''"
    by (simp add: example_globals_def example_client_def)
  from recipient_canonicalization[where r = "''972501234567''"] p1
  have q1: "recipientId (Some ''972501234567'') = Some ''972501234567@c.us''"
    by simp
  from recipient_canonicalization[where r = "''501234567''"] p2
  have q2: "recipientId (Some ''0501234567'') = Some ''972501234567@c.us''"
    by simp
  from recipient_canonicalization[where rcpt = "Some ''120363041234567890@g.us''"] p3
  have q3: "recipientId (Some ''120363041234567890@g.us'') = Some ''120363041234567890@g.us''"
    by simp
  from recipient_canonicalization[where rcpt = "Some ''0501234567''" and s = example_globals
      and U = "''u1''" and msg = "Some ''hi''"] p4 q2
  have q4: "filter is_SendMessage
       (fst (snd (UserSendMessage ''u1'' (Some ''0501234567'') (Some ''hi'') example_globals))) =
     [Backend ''u1'' (SendMessage (Some ''972501234567@c.us'') (Some ''hi''))]"
    by simp
  from q1 q2 q3 q4 show ?thesis by simp
qed


section \<open>Properties of the history retrieval\<close>

lemma truthy_num_not_NaN: "truthy_num x \<Longrightarrow> \<not> isNaN x"
  by (cases x rule: truthy_num.cases) simp_all

lemma in_window_effective:
  assumes "st = None \<or> (\<exists>a. a \<noteq> 0 \<and> st = Some (Number a))"
    and "et = None \<or> (\<exists>b. b \<noteq> 0 \<and> et = Some (Number b))"
  shows "in_window st et m \<longleftrightarrow>
     (\<forall>a. st = Some (Number a) \<longrightarrow> a \<le> timestamp m * 1000) \<and>
     (\<forall>b. et = Some (Number b) \<longrightarrow> timestamp m * 1000 \<le> b)"
  using assms by (auto simp: in_window_def)

lemma filteredMessages_effective:
  assumes "st = None \<or> (\<exists>a. a \<noteq> 0 \<and> st = Some (Number a))"
    and "et = None \<or> (\<exists>b. b \<noteq> 0 \<and> et = Some (Number b))"
  shows "mset (filteredMessages st et ms) =
       filter_mset (\<lambda>m. (\<forall>a. st = Some (Number a) \<longrightarrow> a \<le> timestamp m * 1000) \<and>
                         (\<forall>b. et = Some (Number b) \<longrightarrow> timestamp m * 1000 \<le> b)) (mset ms)"
    and "sorted (map timestamp (filteredMessages st et ms))"
proof -
  have "filter (in_window st et) ms =
      filter (\<lambda>m. (\<forall>a. st = Some (Number a) \<longrightarrow> a \<le> timestamp m * 1000) \<and>
                  (\<forall>b. et = Some (Number b) \<longrightarrow> timestamp m * 1000 \<le> b)) ms"
    using in_window_effective[OF assms] by (intro filter_cong) auto
  then show "mset (filteredMessages st et ms) =
       filter_mset (\<lambda>m. (\<forall>a. st = Some (Number a) \<longrightarrow> a \<le> timestamp m * 1000) \<and>
                         (\<forall>b. et = Some (Number b) \<longrightarrow> timestamp m * 1000 \<le> b)) (mset ms)"
    by (simp add: filteredMessages_def)
  show "sorted (map timestamp (filteredMessages st et ms))"
    by (simp add: filteredMessages_def)
qed

lemma in_window_end_zero: "in_window st (Some (Number 0)) = in_window st None"
  by (simp add: in_window_def fun_eq_iff)

text \<open>
  C4. The list relayed is the accepted batch filtered and stably sorted by timestamp. As
  long as each bound is absent or parses to a number other than 0, it holds exactly the
  messages of the batch (with their multiplicity) whose timestamp, which the backend counts
  in seconds, lies in milliseconds between the bounds, both inclusive, in ascending order:
  messages at 100, 200, 300 and 400 seconds with the window from 150000 to 350000
  milliseconds give those at 200 and 300. But a bound that parses to 0, the epoch itself,
  is falsy and therefore ignored: with the end bound at 0 the filter keeps every message
  from the start bound on, where the range of the query is empty.
\<close>

theorem filteredMessages_window:
  "((st = None \<or> (\<exists>a. a \<noteq> 0 \<and> st = Some (Number a))) \<and>
    (et = None \<or> (\<exists>b. b \<noteq> 0 \<and> et = Some (Number b))) \<longrightarrow>
      mset (filteredMessages st et ms) =
        filter_mset (\<lambda>m. (\<forall>a. st = Some (Number a) \<longrightarrow> a \<le> timestamp m * 1000) \<and>
                          (\<forall>b. et = Some (Number b) \<longrightarrow> timestamp m * 1000 \<le> b)) (mset ms) \<and>
      sorted (map timestamp (filteredMessages st et ms)))
   \<and> filteredMessages (Some (Number 150000)) (Some (Number 350000))
        [example_message 100, example_message 200, example_message 300, example_message 400]
      = [example_message 200, example_message 300]
   \<and> filteredMessages st (Some (Number 0)) ms = filteredMessages st None ms
   \<and> filteredMessages (Some (Number 150000)) (Some (Number 0))
        [example_message 100, example_message 200] = [example_message 200]"
proof (intro conjI impI)
  assume a: "(st = None \<or> (\<exists>a. a \<noteq> 0 \<and> st = Some (Number a))) \<and>
    (et = None \<or> (\<exists>b. b \<noteq> 0 \<and> et = Some (Number b)))"
  then show "mset (filteredMessages st et ms) =
        filter_mset (\<lambda>m. (\<forall>a. st = Some (Number a) \<longrightarrow> a \<le> timestamp m * 1000) \<and>
                          (\<forall>b. et = Some (Number b) \<longrightarrow> timestamp m * 1000 \<le> b)) (mset ms)"
    using filteredMessages_effective(1) by blast
  from a show "sorted (map timestamp (filteredMessages st et ms))"
    using filteredMessages_effective(2) by blast
next
  show "filteredMessages (Some (Number 150000)) (Some (Number 350000))
        [example_message 100, example_message 200, example_message 300, example_message 400]
      = [example_message 200, example_message 300]"
    by (simp add: filteredMessages_def in_window_def example_message_def)
next
  show "filteredMessages st (Some (Number 0)) ms = filteredMessages st None ms"
    by (simp add: filteredMessages_def in_window_end_zero)
next
  show "filteredMessages (Some (Number 150000)) (Some (Number 0))
        [example_message 100, example_message 200] = [example_message 200]"
    by (simp add: filteredMessages_def in_window_def example_message_def)
qed

theorem filteredMessages_window_witness:
  "sorted (map timestamp (filteredMessages (Some (Number 150000)) (Some (Number 350000))
             [example_message 400, example_message 100]))
   \<and> filteredMessages (Some (Number 150000)) (Some (Number 0))
        [example_message 100, example_message 200]
      = filteredMessages (Some (Number 150000)) None [example_message 100, example_message 200]"
proof -
  have bounds: "(Some (Number 150000) = None \<or> (\<exists>a. a \<noteq> 0 \<and> Some (Number 150000) = Some (Number a))) \<and>
      (Some (Number 350000) = None \<or> (\<exists>b. b \<noteq> 0 \<and> Some (Number 350000) = Some (Number b)))"
    by simp
  from filteredMessages_window[where st = "Some (Number 150000)" and et = "Some (Number 350000)"
      and ms = "[example_message 400, example_message 100]"] bounds
  have one: "sorted (map timestamp (filteredMessages (Some (Number 150000)) (Some (Number 350000))
             [example_message 400, example_message 100]))"
    by blast
  from filteredMessages_window[where st = "Some (Number 150000)"
      and ms = "[example_message 100, example_message 200]"]
  have two: "filteredMessages (Some (Number 150000)) (Some (Number 0))
        [example_message 100, example_message 200]
      = filteredMessages (Some (Number 150000)) None [example_message 100, example_message 200]"
    by blast
  from one two show ?thesis by simp
qed

subsection \<open>The escalating fetches\<close>

lemma fetch_loop_nothing_older:
  assumes "\<forall>limit\<in>set limits. \<exists>ms. fetchMessages chat limit = Inr ms \<and>
             (ms = [] \<or> \<not> js_lt (timestamp (hd ms) * 1000) st)"
  shows "fetch_loop U chat st limits s =
           (s, map (\<lambda>limit. Backend U (FetchMessages limit)) limits, Inr ([], False))"
  using assms
proof (induction limits)
  case Nil
  then show ?case by (simp add: ret_def)
next
  case (Cons limit limits)
  then obtain ms where ms: "fetchMessages chat limit = Inr ms"
      "ms = [] \<or> \<not> js_lt (timestamp (hd ms) * 1000) st"
    by auto
  have rest: "fetch_loop U chat st limits s =
           (s, map (\<lambda>limit. Backend U (FetchMessages limit)) limits, Inr ([], False))"
    using Cons by simp
  from ms(2) show ?case
    by (auto simp: seq_def emit_def ms(1) rest)
qed

lemma getGroupMessages_found:
  assumes "waClients s U = Some c" and "getState c = Inr ''CONNECTED''"
    and "getChatById c groupId = Inr (Some chat)"
  shows "getGroupMessages pf U groupId start_time end_time s =
     try_catch
       (seq (emit (Log DEBUG ''waLogic'' ''getGroupMessages''
               [S ''Fetching messages for userId '', S U, S '', groupId '', S (str_of groupId)]))
          (\<lambda>_. seq (emit (Backend U GetState))
          (\<lambda>_. seq (emit (Backend U (GetChatById groupId)))
          (\<lambda>_. fetch_and_relay pf U groupId start_time end_time chat))))
       (\<lambda>error.
          seq (logError ''waLogic'' ''getGroupMessages''
                 [S ''Error fetching messages for userId '', S U, S '', groupId '',
                  S (str_of groupId), S '': '', S (message_of error)])
            (\<lambda>_. sendMessageToClients U
                    [(''event'', JStr ''error''), (''userid'', JStr U),
                     (''message'', JStr (message_of error))] None)) s"
  by (simp add: getGroupMessages_def getGroupMessages_with_def getGroupMessages_catch_def
      getConnectedClient_ready[OF assms(1,2)] assms(3) prog_defs
      split: prod.splits sum.splits)

lemma fetch_and_relay_nothing_older:
  assumes "\<forall>limit\<in>set fetchLimits. \<exists>ms. fetchMessages chat limit = Inr ms \<and>
             (ms = [] \<or> \<not> js_lt (timestamp (hd ms) * 1000) (to_timestamp pf start_time))"
    and rel: "sendMessageToClients U (group_messages U groupId start_time []) None s = (s1, es1, r1)"
  shows "fetch_and_relay pf U groupId start_time end_time chat s =
     (s1,
      map (\<lambda>limit. Backend U (FetchMessages limit)) fetchLimits @
      [Log DEBUG ''waLogic'' ''getGroupMessages''
         [S ''Unable to fetch messages older than the start time.''],
       Log DEBUG ''waLogic'' ''getGroupMessages''
         [S ''No messages found within the specified timeframe.''],
       Log DEBUG ''waLogic'' ''getGroupMessages'' [S ''Filtered '', N 0, S '' messages.'']] @
      es1 @
      [Log DEBUG ''waLogic'' ''getGroupMessages''
         [S ''Successfully sent filtered messages for userId '', S U, S '', group '',
          S (str_of groupId)]],
      Inr ())"
proof -
  have nan: "\<not> ((truthy_num (to_timestamp pf start_time) \<and> isNaN (to_timestamp pf start_time)) \<or>
         (truthy_num (to_timestamp pf end_time) \<and> isNaN (to_timestamp pf end_time)))"
    using truthy_num_not_NaN by blast
  have r1: "r1 = Inr ()"
    using sendMessageToClients_result[OF rel] by simp
  show ?thesis
    unfolding fetch_and_relay_def
    by (simp add: nan fetch_loop_nothing_older[OF assms(1)] filteredMessages_def rel r1
        seq_def emit_def logDebug_def ret_def del: isNaN.simps truthy_num.simps)
qed

text \<open>
  C1. A query for which no fetch surfaces a batch whose first message is older than the
  start time, on a ready session whose chat is found: all three fetches are made, the case
  is logged at level DEBUG, the routine returns and no \<open>error\<close> event is sent. But the
  batch that goes through the filter is not the largest one fetched: it is the empty list
  \<open>allMessages\<close> started as, so the \<open>group_messages\<close> frame each open subscriber receives
  always carries an empty \<open>messages\<close> array, whatever the batches held.
\<close>

theorem no_older_batch_relays_nothing:
  assumes "waClients s U = Some c" and "getState c = Inr ''CONNECTED''"
    and "getChatById c groupId = Inr (Some chat)"
    and "\<forall>limit\<in>set fetchLimits. \<exists>ms. fetchMessages chat limit = Inr ms \<and>
           (ms = [] \<or> \<not> js_lt (timestamp (hd ms) * 1000) (to_timestamp pf start_time))"
  shows "snd (snd (getGroupMessages pf U groupId start_time end_time s)) = Inr ()
     \<and> filter is_Backend (fst (snd (getGroupMessages pf U groupId start_time end_time s))) =
         [Backend U GetState, Backend U (GetChatById groupId), Backend U (FetchMessages 50),
          Backend U (FetchMessages 200), Backend U (FetchMessages 500)]
     \<and> Log DEBUG ''waLogic'' ''getGroupMessages''
         [S ''Unable to fetch messages older than the start time.'']
         \<in> set (fst (snd (getGroupMessages pf U groupId start_time end_time s)))
     \<and> filter is_Send (fst (snd (getGroupMessages pf U groupId start_time end_time s))) =
         map (\<lambda>w. Send w (JSON_stringify (group_messages U groupId start_time [])))
           (filter (\<lambda>w. map_of (wsClients s) w = Some OPEN) (targetClients s U None))
     \<and> field (group_messages U groupId start_time []) ''messages'' = JArr []
     \<and> field (JSON_stringify (group_messages U groupId start_time [])) ''messages'' = JArr []"
proof -
  let ?g = "group_messages U groupId start_time []"
  obtain s1 es1 r1 where rel: "sendMessageToClients U ?g None s = (s1, es1, r1)"
    by (cases "sendMessageToClients U ?g None s") auto
  have ev: "field ?g ''event'' \<noteq> JStr ''message''"
    by (simp add: field_def group_messages_def)
  from sendMessageToClients_result[OF rel] ev
  have facts: "r1 = Inr ()" "filter is_Backend es1 = []"
    "filter is_Send es1 =
       map (\<lambda>w. Send w (JSON_stringify ?g))
         (filter (\<lambda>w. map_of (wsClients s) w = Some OPEN) (targetClients s U None))"
    by simp_all
  have run: "getGroupMessages pf U groupId start_time end_time s =
     (s1,
      [Log DEBUG ''waLogic'' ''getGroupMessages''
         [S ''Fetching messages for userId '', S U, S '', groupId '', S (str_of groupId)],
       Backend U GetState, Backend U (GetChatById groupId)] @
      map (\<lambda>limit. Backend U (FetchMessages limit)) fetchLimits @
      [Log DEBUG ''waLogic'' ''getGroupMessages''
         [S ''Unable to fetch messages older than the start time.''],
       Log DEBUG ''waLogic'' ''getGroupMessages''
         [S ''No messages found within the specified timeframe.''],
       Log DEBUG ''waLogic'' ''getGroupMessages'' [S ''Filtered '', N 0, S '' messages.'']] @
      es1 @
      [Log DEBUG ''waLogic'' ''getGroupMessages''
         [S ''Successfully sent filtered messages for userId '', S U, S '', group '',
          S (str_of groupId)]],
      Inr ())"
    by (simp add: getGroupMessages_found[OF assms(1-3)]
        fetch_and_relay_nothing_older[OF assms(4) rel] try_catch_def seq_def emit_def)
  have msgs: "field ?g ''messages'' = JArr []"
    "field (JSON_stringify ?g) ''messages'' = JArr []"
    by (simp_all add: field_def group_messages_def JSON_stringify_def)
  from facts msgs show ?thesis
    by (simp add: run fetchLimits_def)
qed

theorem no_older_batch_relays_nothing_witness:
  "filter is_Send
     (fst (snd (getGroupMessages example_platform ''u1'' (Some ''g1'')
                  (Some ''1970-01-01T00:02:30Z'') None example_globals))) =
     [Send (WsId 1001 7)
        (JSON_stringify (group_messages ''u1'' (Some ''g1'') (Some ''1970-01-01T00:02:30Z'') [])),
      Send (WsId 1002 8)
        (JSON_stringify (group_messages ''u1'' (Some ''g1'') (Some ''1970-01-01T00:02:30Z'') []))]
   \<and> fetchMessages example_chat 500 = Inr [example_message 200]
   \<and> filteredMessages (to_timestamp example_platform (Some ''1970-01-01T00:02:30Z''))
        (to_timestamp example_platform None) [example_message 200] = [example_message 200]"
proof -
  have c: "waClients example_globals ''u1'' = Some example_client"
    by (simp add: example_globals_def)
  have st: "getState example_client = Inr ''CONNECTED''"
    by (simp add: example_client_def)
  have ch: "getChatById example_client (Some ''g1'') = Inr (Some example_chat)"
    by (simp add: example_client_def)
  have ts: "to_timestamp example_platform (Some ''1970-01-01T00:02:30Z'') = Some (Number 150000)"
    "to_timestamp example_platform None = None"
    by (simp_all add: to_timestamp_def truthy_def example_platform_def)
  have older: "\<forall>limit\<in>set fetchLimits. \<exists>ms. fetchMessages example_chat limit = Inr ms \<and>
           (ms = [] \<or> \<not> js_lt (timestamp (hd ms) * 1000)
                          (to_timestamp example_platform (Some ''1970-01-01T00:02:30Z'')))"
    by (simp add: ts example_chat_def example_message_def)
  have targets: "filter (\<lambda>w. map_of (wsClients example_globals) w = Some OPEN)
      (targetClients example_globals ''u1'' None) = [WsId 1001 7, WsId 1002 8]"
    by (simp add: example_globals_def targetClients_def subscribed_def userIds_get_def)
  have batch: "fetchMessages example_chat 500 = Inr [example_message 200]"
    by (simp add: example_chat_def)
  have window: "filteredMessages (to_timestamp example_platform (Some ''1970-01-01T00:02:30Z''))
        (to_timestamp example_platform None) [example_message 200] = [example_message 200]"
    by (simp add: ts filteredMessages_def in_window_def example_message_def)
  from no_older_batch_relays_nothing[OF c st ch older, of None] targets batch window
  show ?thesis by simp
qed


end
